theory Spec2Isabelle
  imports Complex_Main
begin

section \<open>JavaScript values\<close>

text \<open>
  The front end handles JSON documents: request bodies typed by the user, mock payloads and
  error bodies of the back end. A JSON value is modelled as it is after \<open>JSON.parse\<close>.
  An object is the list of its properties in enumeration order; numbers are the reals
  they denote (every finite double is one, and the code only compares them).
  Strings are lists of bytes, the UTF-8 form of the source text.
  The JavaScript value \<open>undefined\<close> is \<open>None\<close> of an option.
\<close>

datatype json =
    JNull
  | JBool bool
  | JNum real
  | JStr string
  | JArr "json list"
  | JObj "(string \<times> json) list"

text \<open>Truthiness, as \<open>!x\<close>, \<open>x || y\<close> and \<open>x && y\<close> test it.\<close>

fun truthy :: "json \<Rightarrow> bool" where
  "truthy JNull = False"
| "truthy (JBool b) = b"
| "truthy (JNum n) = (n \<noteq> 0)"
| "truthy (JStr s) = (s \<noteq> [])"
| "truthy (JArr xs) = True"
| "truthy (JObj kvs) = True"

definition truthy_opt :: "json option \<Rightarrow> bool" where
  "truthy_opt v = (case v of None \<Rightarrow> False | Some x \<Rightarrow> truthy x)"

text \<open>
  Reading a property with optional chaining, \<open>data?.key\<close>: \<open>undefined\<close> when the base is
  \<open>undefined\<close> or \<open>null\<close>, the property of an object, and \<open>undefined\<close> on a primitive or
  an array (for the keys the code reads, \<open>error\<close>, \<open>message\<close> and \<open>timestamp\<close>, none of
  which is a built-in property).
\<close>

fun get_prop :: "json \<Rightarrow> string \<Rightarrow> json option" where
  "get_prop (JObj kvs) k = map_of kvs k"
| "get_prop v k = None"

definition opt_prop :: "json option \<Rightarrow> string \<Rightarrow> json option" where
  "opt_prop v k = (case v of None \<Rightarrow> None | Some x \<Rightarrow> get_prop x k)"

text \<open>
  Writing a property of an object, \<open>obj[k] = v\<close>: an existing property keeps its place,
  a new one is added last.
\<close>

fun set_prop :: "string \<Rightarrow> json \<Rightarrow> (string \<times> json) list \<Rightarrow> (string \<times> json) list" where
  "set_prop k v [] = [(k, v)]"
| "set_prop k v (p # ps) = (if fst p = k then (k, v) # ps else p # set_prop k v ps)"

section \<open>Strings\<close>

text \<open>
  \<open>String.prototype.trim\<close> removes white space and line terminators from both ends:
  U+0009 to U+000D and U+0020 (one byte each), U+00A0 (two bytes), and U+1680,
  U+2000 to U+200A, U+2028, U+2029, U+202F, U+205F, U+3000 and U+FEFF (three bytes each).
\<close>

definition ws1 :: "char \<Rightarrow> bool" where
  "ws1 a = (a \<in> set [CHR 0x09, CHR 0x0A, CHR 0x0B, CHR 0x0C, CHR 0x0D, CHR 0x20])"

definition ws2 :: "char \<Rightarrow> char \<Rightarrow> bool" where
  "ws2 a b = (a = CHR 0xC2 \<and> b = CHR 0xA0)"

definition ws3 :: "char \<Rightarrow> char \<Rightarrow> char \<Rightarrow> bool" where
  "ws3 a b c =
     ((a = CHR 0xE1 \<and> b = CHR 0x9A \<and> c = CHR 0x80) \<or>
      (a = CHR 0xE2 \<and> b = CHR 0x80 \<and>
         c \<in> set [CHR 0x80, CHR 0x81, CHR 0x82, CHR 0x83, CHR 0x84, CHR 0x85, CHR 0x86,
                  CHR 0x87, CHR 0x88, CHR 0x89, CHR 0x8A, CHR 0xA8, CHR 0xA9, CHR 0xAF]) \<or>
      (a = CHR 0xE2 \<and> b = CHR 0x81 \<and> c = CHR 0x9F) \<or>
      (a = CHR 0xE3 \<and> b = CHR 0x80 \<and> c = CHR 0x80) \<or>
      (a = CHR 0xEF \<and> b = CHR 0xBB \<and> c = CHR 0xBF))"

text \<open>
  \<open>strip p1 p2 p3\<close> drops from the front every unit that \<open>p1\<close>, \<open>p2\<close> or \<open>p3\<close> accepts
  (units of one, two and three bytes).
\<close>

fun strip :: "(char \<Rightarrow> bool) \<Rightarrow> (char \<Rightarrow> char \<Rightarrow> bool) \<Rightarrow> (char \<Rightarrow> char \<Rightarrow> char \<Rightarrow> bool)
    \<Rightarrow> string \<Rightarrow> string" where
  "strip p1 p2 p3 (a # b # c # cs) =
     (if p1 a then strip p1 p2 p3 (b # c # cs)
      else if p2 a b then strip p1 p2 p3 (c # cs)
      else if p3 a b c then strip p1 p2 p3 cs
      else a # b # c # cs)"
| "strip p1 p2 p3 [a, b] =
     (if p1 a then strip p1 p2 p3 [b] else if p2 a b then [] else [a, b])"
| "strip p1 p2 p3 [a] = (if p1 a then [] else [a])"
| "strip p1 p2 p3 [] = []"

definition trimStart :: "string \<Rightarrow> string" where
  "trimStart s = strip ws1 ws2 ws3 s"

definition trimEnd :: "string \<Rightarrow> string" where
  "trimEnd s = rev (strip ws1 (\<lambda>b a. ws2 a b) (\<lambda>c b a. ws3 a b c) (rev s))"

definition trim :: "string \<Rightarrow> string" where
  "trim s = trimEnd (trimStart s)"

text \<open>
  A template literal renders an integral Number in decimal (every value of \<open>Date.now()\<close>
  is far below \<open>10^21\<close>, where the exponent form would start).
\<close>

definition digit_char :: "nat \<Rightarrow> char" where
  "digit_char d = ''0123456789'' ! d"

fun show_nat :: "nat \<Rightarrow> string" where
  "show_nat n = (if n < 10 then [digit_char n] else show_nat (n div 10) @ [digit_char (n mod 10)])"

definition show_int :: "int \<Rightarrow> string" where
  "show_int i = (if i < 0 then CHR ''-'' # show_nat (nat (- i)) else show_nat (nat i))"

declare show_nat.simps [simp del]

section \<open>Built-ins taken as parameters\<close>

text \<open>
  \<open>JSON.parse\<close> is the engine's: the handlers take it as a parameter. \<open>Inl msg\<close> is the
  SyntaxError it throws, with its message; \<open>Inr v\<close> is the parsed value.
  The clock is read by \<open>Date.now()\<close> (milliseconds, an integer) and by
  \<open>new Date().toISOString()\<close> (a string); each handler takes the readings it makes.
\<close>

type_synonym parser = "string \<Rightarrow> string + json"

section \<open>Effects\<close>

text \<open>
  What a handler does beyond updating component state: a blocking notice (\<open>alert\<close>),
  a write of the custom mock list to \<open>localStorage\<close> (the effect hook that depends on
  \<open>customMocks\<close> runs after each call of \<open>setCustomMocks\<close>; the written value is the
  list, before \<open>JSON.stringify\<close>), and an HTTP POST (URL, extra headers, body).
\<close>

record custom_mock =
  mock_id :: string
  mock_name :: string
  mock_payload :: string
  mock_type :: string
  savedAt :: string

datatype effect =
    Alert string
  | StorageWrite string "custom_mock list"
  | Post string "(string \<times> string) list" json

definition CUSTOM_MOCKS_STORAGE_KEY :: string where
  "CUSTOM_MOCKS_STORAGE_KEY = ''esg-ingestion-custom-mocks''"

section \<open>Custom mock store\<close>

text \<open>The state of the ingestion tab (the \<open>useState\<close> cells of \<open>IngestionTab\<close>).\<close>

record ingestion_tab =
  ingestionType :: string
  jsonInput :: string
  sourceId :: string
  ingestionSource :: string
  includeScorecard :: bool
  customMockName :: string
  customMocks :: "custom_mock list"

text \<open>The effect hook \<open>useEffect(..., [customMocks])\<close>.\<close>

definition persistCustomMocks :: "custom_mock list \<Rightarrow> effect list" where
  "persistCustomMocks ms = [StorageWrite CUSTOM_MOCKS_STORAGE_KEY ms]"

text \<open>
  \<open>handleSaveCustomMock\<close>: returns early on a blank buffer or a blank name; a buffer that
  does not parse raises in the \<open>try\<close> block and ends in the notice; otherwise the new
  mock goes to the front of the list and the name field is cleared.
\<close>

definition handleSaveCustomMock ::
  "parser \<Rightarrow> int \<Rightarrow> string \<Rightarrow> ingestion_tab \<Rightarrow> ingestion_tab \<times> effect list" where
  "handleSaveCustomMock JSON_parse date_now now_iso st =
     (if trim (jsonInput st) = [] \<or> trim (customMockName st) = [] then (st, [])
      else case JSON_parse (jsonInput st) of
        Inl msg \<Rightarrow> (st, [Alert ''Invalid JSON. Fix payload before saving.''])
      | Inr parsed \<Rightarrow>
          let newMock = \<lparr> mock_id = ''custom-'' @ show_int date_now,
                          mock_name = trim (customMockName st),
                          mock_payload = trim (jsonInput st),
                          mock_type = ingestionType st,
                          savedAt = now_iso \<rparr>;
              mocks = newMock # customMocks st
          in (st\<lparr> customMocks := mocks, customMockName := [] \<rparr>, persistCustomMocks mocks))"

definition handleDeleteCustomMock :: "string \<Rightarrow> ingestion_tab \<Rightarrow> ingestion_tab \<times> effect list" where
  "handleDeleteCustomMock i st =
     (let mocks = filter (\<lambda>m. mock_id m \<noteq> i) (customMocks st)
      in (st\<lparr> customMocks := mocks \<rparr>, persistCustomMocks mocks))"

text \<open>
  One save as the user performs it: the name field and the buffer are edited, the mode is
  chosen, and the button calls the handler at the clock readings of that moment.
\<close>

record save_op =
  op_name :: string
  op_input :: string
  op_type :: string
  op_now :: int
  op_iso :: string

definition save_step :: "parser \<Rightarrow> ingestion_tab \<Rightarrow> save_op \<Rightarrow> ingestion_tab" where
  "save_step JSON_parse st sv =
     fst (handleSaveCustomMock JSON_parse (op_now sv) (op_iso sv)
            (st\<lparr> customMockName := op_name sv, jsonInput := op_input sv,
                  ingestionType := op_type sv \<rparr>))"

definition run_saves :: "parser \<Rightarrow> ingestion_tab \<Rightarrow> save_op list \<Rightarrow> ingestion_tab" where
  "run_saves JSON_parse st ops = foldl (save_step JSON_parse) st ops"

section \<open>Ingestion history\<close>

record history_entry =
  entry_id :: int
  entry_timestamp :: string
  entry_status :: string
  entry_type :: string
  entry_data :: json

text \<open>The state of the portal shell (\<open>TelemetryIngestionPortal\<close>).\<close>

record portal =
  activeTab :: string
  ingestionHistory :: "history_entry list"

text \<open>
  \<open>handleIngestSuccess\<close> of the portal shell. The argument \<open>{ type, data }\<close> is spread after
  \<open>id\<close>, \<open>timestamp\<close> and \<open>status\<close>; \<open>prev.slice(0, 19)\<close> keeps the first 19 entries.
\<close>

definition handleIngestSuccess :: "int \<Rightarrow> string \<Rightarrow> string \<times> json \<Rightarrow> portal \<Rightarrow> portal" where
  "handleIngestSuccess date_now now_iso entry st =
     st\<lparr> ingestionHistory :=
            \<lparr> entry_id = date_now, entry_timestamp = now_iso, entry_status = ''success'',
              entry_type = fst entry, entry_data = snd entry \<rparr>
            # take 19 (ingestionHistory st),
         activeTab := ''dashboard'' \<rparr>"

text \<open>
  The stand-alone \<open>IngestionPortal\<close> keeps its own history: the \<open>onSuccess\<close> callbacks of
  its two mutations build the entry in place and keep \<open>prev.slice(0, 9)\<close>.
\<close>

definition portal_onSuccess :: "string \<Rightarrow> int \<Rightarrow> string \<Rightarrow> json \<Rightarrow> history_entry list
    \<Rightarrow> history_entry list" where
  "portal_onSuccess ty date_now now_iso data prev =
     \<lparr> entry_id = date_now, entry_timestamp = now_iso, entry_status = ''success'',
       entry_type = ty, entry_data = data \<rparr> # take 9 prev"

text \<open>
  What happens to a history: a successful submission (mode, the two clock readings, the
  response) or the "clear" button.
\<close>

datatype history_event = Ingested string int string json | Cleared

fun shell_event :: "portal \<Rightarrow> history_event \<Rightarrow> portal" where
  "shell_event st (Ingested ty t now_iso data) = handleIngestSuccess t now_iso (ty, data) st"
| "shell_event st Cleared = st\<lparr> ingestionHistory := [] \<rparr>"

fun standalone_event :: "history_entry list \<Rightarrow> history_event \<Rightarrow> history_entry list" where
  "standalone_event h (Ingested ty t now_iso data) = portal_onSuccess ty t now_iso data h"
| "standalone_event h Cleared = []"

section \<open>Mock payload catalog\<close>

text \<open>
  A generator reads the clock twice and the random source once: \<open>now()\<close> is
  \<open>new Date().toISOString()\<close>, and \<open>uniqueId()\<close> joins \<open>Date.now()\<close> with
  \<open>Math.random().toString(36).slice(2, 9)\<close>. The three readings of one realization are
  \<open>clock_iso\<close>, \<open>clock_ms\<close> and \<open>random36\<close> (the base-36 rendering, before the slice).
\<close>

record readings =
  clock_iso :: string
  clock_ms :: int
  random36 :: string

definition now :: "readings \<Rightarrow> string" where
  "now r = clock_iso r"

definition uniqueId :: "readings \<Rightarrow> string" where
  "uniqueId r = ''mock-'' @ show_int (clock_ms r) @ ''-'' @ take 7 (drop 2 (random36 r))"

text \<open>A descriptor's \<open>payload\<close> is a zero-argument function or a plain object.\<close>

datatype payload_src = Generator "readings \<Rightarrow> json" | Static json

record preset =
  preset_id :: string
  preset_name :: string
  preset_description :: string
  preset_vertical :: string
  preset_payload :: payload_src

definition mock_ai_training_full :: preset where
  "mock_ai_training_full =
     \<lparr> preset_id = ''ai-training-full'',
       preset_name = ''AI Training Data Center'',
       preset_description = ''Full stack: energy, carbon, water, compute (training), hardware, data quality. Use for GPU training facilities.'',
       preset_vertical = ''AI Training'',
       preset_payload = Generator (\<lambda>r. JObj [
          (''timestamp'', JStr (now r)),
          (''asset_id'', JStr ''DC1-TRAIN-A01''),
          (''region'', JStr ''us-west-2''),
          (''source_id'', JStr ''mock-gateway''),
          (''external_event_id'', JStr (uniqueId r)),
          (''emission_factor_version'', JStr ''v1''),
          (''energy'', JObj [
            (''facility_kwh'', JNum 2400),
            (''it_kwh'', JNum 2000),
            (''cooling_kwh'', JNum 360),
            (''generator_fuel_liters'', JNum 0),
            (''energy_unit'', JStr ''kWh'')]),
          (''carbon'', JObj [
            (''scope1_kg_co2e'', JNum 0),
            (''scope2_location_kg_co2e'', JNum 480),
            (''scope2_market_kg_co2e'', JNum 420),
            (''grid_carbon_intensity_kg_per_kwh'', JNum 0.24),
            (''carbon_unit'', JStr ''kg_co2e'')]),
          (''water'', JObj [
            (''withdrawal_liters'', JNum 12000),
            (''returned_liters'', JNum 9600),
            (''consumed_liters'', JNum 2400),
            (''reclaimed_liters'', JNum 2400),
            (''evaporation_liters'', JNum 1800),
            (''blowdown_liters'', JNum 600),
            (''water_unit'', JStr ''liters'')]),
          (''compute'', JObj [
            (''gpu_hours'', JNum 400),
            (''gpu_count'', JNum 200),
            (''run_duration_seconds'', JNum 14400),
            (''run_type'', JStr ''training''),
            (''training_runs'', JNum 8),
            (''inference_requests'', JNum 0)]),
          (''hardware'', JObj [
            (''utilization_pct'', JNum 78),
            (''idle_rate_pct'', JNum 22),
            (''asset_state'', JStr ''active'')]),
          (''data_quality'', JObj [
            (''completeness_pct'', JNum 99),
            (''latency_seconds'', JNum 3),
            (''outlier_flag'', JBool False),
            (''drift_flag'', JBool False),
            (''confidence_score'', JNum 0.95)])]) \<rparr>"

definition mock_ai_inference_serving :: preset where
  "mock_ai_inference_serving =
     \<lparr> preset_id = ''ai-inference-serving'',
       preset_name = ''AI Inference / Serving'',
       preset_description = ''Energy + compute (inference requests). Use for inference-only or serving clusters.'',
       preset_vertical = ''AI Inference'',
       preset_payload = Generator (\<lambda>r. JObj [
          (''timestamp'', JStr (now r)),
          (''asset_id'', JStr ''DC2-INFER-B02''),
          (''region'', JStr ''eu-west-1''),
          (''source_id'', JStr ''mock-gateway''),
          (''external_event_id'', JStr (uniqueId r)),
          (''energy'', JObj [
            (''facility_kwh'', JNum 800),
            (''it_kwh'', JNum 680),
            (''cooling_kwh'', JNum 100),
            (''energy_unit'', JStr ''kWh'')]),
          (''compute'', JObj [
            (''gpu_hours'', JNum 85),
            (''gpu_count'', JNum 50),
            (''training_runs'', JNum 0),
            (''inference_requests'', JNum 125000)]),
          (''hardware'', JObj [
            (''utilization_pct'', JNum 62),
            (''idle_rate_pct'', JNum 38),
            (''asset_state'', JStr ''active'')])]) \<rparr>"

definition mock_colocation_energy :: preset where
  "mock_colocation_energy =
     \<lparr> preset_id = ''colocation-energy'',
       preset_name = (''Colocation '' @ [CHR 0xE2, CHR 0x80, CHR 0x94] @ '' Energy Only''),
       preset_description = ''Minimal: energy block only. Use for colo or facilities without water/compute telemetry.'',
       preset_vertical = ''Colocation'',
       preset_payload = Generator (\<lambda>r. JObj [
          (''timestamp'', JStr (now r)),
          (''asset_id'', JStr ''COLO-HALL-3''),
          (''region'', JStr ''us-east-1''),
          (''external_event_id'', JStr (uniqueId r)),
          (''energy'', JObj [
            (''facility_kwh'', JNum 5000),
            (''it_kwh'', JNum 4200),
            (''cooling_kwh'', JNum 700),
            (''energy_unit'', JStr ''kWh'')])]) \<rparr>"

definition mock_water_intensive :: preset where
  "mock_water_intensive =
     \<lparr> preset_id = ''water-intensive'',
       preset_name = ''Water-Intensive Cooling'',
       preset_description = ''Energy + water (tower, blowdown, reclaimed). Use for evaporative cooling sites.'',
       preset_vertical = ''Water-Critical'',
       preset_payload = Generator (\<lambda>r. JObj [
          (''timestamp'', JStr (now r)),
          (''asset_id'', JStr ''DC3-WATER-A01''),
          (''region'', JStr ''us-southwest''),
          (''external_event_id'', JStr (uniqueId r)),
          (''energy'', JObj [
            (''facility_kwh'', JNum 3000),
            (''it_kwh'', JNum 2500),
            (''cooling_kwh'', JNum 450),
            (''energy_unit'', JStr ''kWh'')]),
          (''water'', JObj [
            (''withdrawal_liters'', JNum 25000),
            (''returned_liters'', JNum 20000),
            (''consumed_liters'', JNum 5000),
            (''reclaimed_liters'', JNum 5000),
            (''evaporation_liters'', JNum 3800),
            (''blowdown_liters'', JNum 1200),
            (''water_unit'', JStr ''liters'')])]) \<rparr>"

definition mock_hpc_research :: preset where
  "mock_hpc_research =
     \<lparr> preset_id = ''hpc-research'',
       preset_name = ''HPC / Research'',
       preset_description = ''Energy, compute, hardware. Use for HPC or research compute clusters.'',
       preset_vertical = ''HPC'',
       preset_payload = Generator (\<lambda>r. JObj [
          (''timestamp'', JStr (now r)),
          (''asset_id'', JStr ''HPC-CLUSTER-01''),
          (''region'', JStr ''us-central''),
          (''external_event_id'', JStr (uniqueId r)),
          (''energy'', JObj [
            (''facility_kwh'', JNum 6000),
            (''it_kwh'', JNum 5200),
            (''cooling_kwh'', JNum 720),
            (''energy_unit'', JStr ''kWh'')]),
          (''compute'', JObj [
            (''gpu_hours'', JNum 1200),
            (''gpu_count'', JNum 400),
            (''run_duration_seconds'', JNum 43200),
            (''run_type'', JStr ''training''),
            (''training_runs'', JNum 24),
            (''inference_requests'', JNum 0)]),
          (''hardware'', JObj [
            (''utilization_pct'', JNum 88),
            (''idle_rate_pct'', JNum 12),
            (''asset_state'', JStr ''active'')])]) \<rparr>"

definition mock_edge_minimal :: preset where
  "mock_edge_minimal =
     \<lparr> preset_id = ''edge-minimal'',
       preset_name = ''Edge / Minimal'',
       preset_description = ''Minimal energy + compute. Use for edge or small sites with limited sensors.'',
       preset_vertical = ''Edge'',
       preset_payload = Generator (\<lambda>r. JObj [
          (''timestamp'', JStr (now r)),
          (''asset_id'', JStr ''EDGE-01''),
          (''region'', JStr ''on-prem''),
          (''external_event_id'', JStr (uniqueId r)),
          (''energy'', JObj [
            (''facility_kwh'', JNum 120),
            (''it_kwh'', JNum 100),
            (''cooling_kwh'', JNum 18),
            (''energy_unit'', JStr ''kWh'')]),
          (''compute'', JObj [
            (''gpu_hours'', JNum 12),
            (''gpu_count'', JNum 4),
            (''training_runs'', JNum 0),
            (''inference_requests'', JNum 500)])]) \<rparr>"

definition mock_full_benchmark :: preset where
  "mock_full_benchmark =
     \<lparr> preset_id = ''full-benchmark'',
       preset_name = ''Full Benchmark (All Blocks)'',
       preset_description = (''All blocks populated '' @ [CHR 0xE2, CHR 0x80, CHR 0x94] @ '' carbon, water, energy, compute, hardware, data_quality. Schema reference.''),
       preset_vertical = ''Reference'',
       preset_payload = Generator (\<lambda>r. JObj [
          (''timestamp'', JStr (now r)),
          (''asset_id'', JStr ''DC1-RACK-A01''),
          (''region'', JStr ''us-west''),
          (''source_id'', JStr ''gateway-01''),
          (''external_event_id'', JStr (uniqueId r)),
          (''emission_factor_version'', JStr ''v1''),
          (''energy'', JObj [
            (''facility_kwh'', JNum 1200),
            (''it_kwh'', JNum 1000),
            (''cooling_kwh'', JNum 180),
            (''generator_fuel_liters'', JNum 0),
            (''energy_unit'', JStr ''kWh'')]),
          (''water'', JObj [
            (''withdrawal_liters'', JNum 8000),
            (''returned_liters'', JNum 6400),
            (''consumed_liters'', JNum 1600),
            (''reclaimed_liters'', JNum 1600),
            (''evaporation_liters'', JNum 1200),
            (''blowdown_liters'', JNum 400),
            (''water_unit'', JStr ''liters'')]),
          (''compute'', JObj [
            (''gpu_hours'', JNum 200),
            (''gpu_count'', JNum 100),
            (''run_duration_seconds'', JNum 7200),
            (''run_type'', JStr ''training''),
            (''training_runs'', JNum 4),
            (''inference_requests'', JNum 0)]),
          (''hardware'', JObj [
            (''utilization_pct'', JNum 75),
            (''idle_rate_pct'', JNum 25),
            (''asset_state'', JStr ''active'')]),
          (''data_quality'', JObj [
            (''completeness_pct'', JNum 98),
            (''latency_seconds'', JNum 5),
            (''outlier_flag'', JBool False),
            (''drift_flag'', JBool False),
            (''confidence_score'', JNum 0.92)])]) \<rparr>"

definition mock_carbon_intensive :: preset where
  "mock_carbon_intensive =
     \<lparr> preset_id = ''carbon-intensive'',
       preset_name = ''Carbon-Intensive Region'',
       preset_description = ''Carbon block + energy. Use to test Scope 1/2 and grid intensity handling.'',
       preset_vertical = ''Carbon-Focused'',
       preset_payload = Generator (\<lambda>r. JObj [
          (''timestamp'', JStr (now r)),
          (''asset_id'', JStr ''DC-HIGH-CARBON''),
          (''region'', JStr ''high-grid-intensity''),
          (''external_event_id'', JStr (uniqueId r)),
          (''energy'', JObj [
            (''facility_kwh'', JNum 1500),
            (''it_kwh'', JNum 1250),
            (''cooling_kwh'', JNum 220),
            (''energy_unit'', JStr ''kWh'')]),
          (''carbon'', JObj [
            (''scope1_kg_co2e'', JNum 50),
            (''scope2_location_kg_co2e'', JNum 600),
            (''scope2_market_kg_co2e'', JNum 500),
            (''grid_carbon_intensity_kg_per_kwh'', JNum 0.48),
            (''carbon_unit'', JStr ''kg_co2e'')])]) \<rparr>"

definition mock_data_quality_focus :: preset where
  "mock_data_quality_focus =
     \<lparr> preset_id = ''data-quality-focus'',
       preset_name = ''Data Quality Focus'',
       preset_description = ''Compute + hardware + data_quality. Use to test confidence and outlier/drift flags.'',
       preset_vertical = ''Data Quality'',
       preset_payload = Generator (\<lambda>r. JObj [
          (''timestamp'', JStr (now r)),
          (''asset_id'', JStr ''DC-QUALITY-01''),
          (''region'', JStr ''us-west''),
          (''external_event_id'', JStr (uniqueId r)),
          (''compute'', JObj [
            (''gpu_hours'', JNum 100),
            (''gpu_count'', JNum 50),
            (''training_runs'', JNum 2),
            (''inference_requests'', JNum 10000)]),
          (''hardware'', JObj [
            (''utilization_pct'', JNum 70),
            (''idle_rate_pct'', JNum 30),
            (''asset_state'', JStr ''active'')]),
          (''data_quality'', JObj [
            (''completeness_pct'', JNum 95),
            (''latency_seconds'', JNum 8),
            (''outlier_flag'', JBool False),
            (''drift_flag'', JBool True),
            (''confidence_score'', JNum 0.85)])]) \<rparr>"

definition mock_legacy_normal :: preset where
  "mock_legacy_normal =
     \<lparr> preset_id = ''legacy-normal'',
       preset_name = (''Legacy '' @ [CHR 0xE2, CHR 0x80, CHR 0x94] @ '' Normal''),
       preset_description = (''CO'' @ [CHR 0xE2, CHR 0x82, CHR 0x82] @ '' and temperature within safe range. Expect NORMAL status.''),
       preset_vertical = ''Alerts'',
       preset_payload = Generator (\<lambda>r. JObj [
          (''CO2_ppm'', JNum 420),
          (''Temperature_C'', JNum 28.5)]) \<rparr>"

definition mock_legacy_warning :: preset where
  "mock_legacy_warning =
     \<lparr> preset_id = ''legacy-warning'',
       preset_name = (''Legacy '' @ [CHR 0xE2, CHR 0x80, CHR 0x94] @ '' Warning''),
       preset_description = ''One or both metrics near threshold. May return WARNING.'',
       preset_vertical = ''Alerts'',
       preset_payload = Generator (\<lambda>r. JObj [
          (''CO2_ppm'', JNum 550),
          (''Temperature_C'', JNum 38)]) \<rparr>"

definition mock_legacy_critical :: preset where
  "mock_legacy_critical =
     \<lparr> preset_id = ''legacy-critical'',
       preset_name = (''Legacy '' @ [CHR 0xE2, CHR 0x80, CHR 0x94] @ '' Critical''),
       preset_description = ''Exceeds critical thresholds. Expect ALERT_TRIGGERED.'',
       preset_vertical = ''Alerts'',
       preset_payload = Generator (\<lambda>r. JObj [
          (''CO2_ppm'', JNum 650),
          (''Temperature_C'', JNum 48)]) \<rparr>"

definition SUSTAINABILITY_MOCKS :: "preset list" where
  "SUSTAINABILITY_MOCKS =
     [mock_ai_training_full,
      mock_ai_inference_serving,
      mock_colocation_energy,
      mock_water_intensive,
      mock_hpc_research,
      mock_edge_minimal,
      mock_full_benchmark,
      mock_carbon_intensive,
      mock_data_quality_focus]"

definition LEGACY_MOCKS :: "preset list" where
  "LEGACY_MOCKS =
     [mock_legacy_normal,
      mock_legacy_warning,
      mock_legacy_critical]"

definition getMockPayload :: "readings \<Rightarrow> preset \<Rightarrow> json" where
  "getMockPayload r mock = (case preset_payload mock of Generator g \<Rightarrow> g r | Static v \<Rightarrow> v)"

section \<open>Dashboard aggregation\<close>

text \<open>
  A metric of the report. \<open>metric_value\<close> is the field \<open>value\<close>, a number, or \<open>None\<close> when
  the field is absent.
\<close>

record metric =
  metric_type :: string
  metric_value :: "real option"
  metric_unit :: "string option"
  asset_id :: "string option"
  region :: "string option"
  timestamp_utc :: "string option"

text \<open>\<open>x > c\<close> and \<open>x < c\<close> where \<open>x\<close> may be \<open>undefined\<close>: both are false then.\<close>

definition js_gt :: "real option \<Rightarrow> real \<Rightarrow> bool" where
  "js_gt x c = (case x of None \<Rightarrow> False | Some v \<Rightarrow> v > c)"

definition js_lt :: "real option \<Rightarrow> real \<Rightarrow> bool" where
  "js_lt x c = (case x of None \<Rightarrow> False | Some v \<Rightarrow> v < c)"

text \<open>The predicate \<open>isCritical\<close> of \<open>DashboardTab\<close>.\<close>

definition isCritical :: "metric \<Rightarrow> bool" where
  "isCritical m =
     ((metric_type m = ''pue'' \<and> js_gt (metric_value m) 2.0) \<or>
      (metric_type m = ''utilization_pct'' \<and> js_lt (metric_value m) 30) \<or>
      (metric_type m = ''wue'' \<and> js_gt (metric_value m) 2.0))"

text \<open>The same test as \<open>MetricDetailModal\<close> of the stand-alone dashboard writes it.\<close>

definition modal_isCritical :: "metric \<Rightarrow> bool" where
  "modal_isCritical m =
     ((metric_type m = ''pue'' \<and> js_gt (metric_value m) 2.0) \<or>
      (metric_type m = ''utilization_pct'' \<and> js_lt (metric_value m) 30) \<or>
      (metric_type m = ''wue'' \<and> js_gt (metric_value m) 2.0))"

text \<open>
  \<open>MetricSection\<close> computes the flag of each card. In the portal's dashboard tab the
  check is a property that may be missing (\<open>criticalCheck ? criticalCheck(metric) : false\<close>);
  in the stand-alone dashboard the section computes the test itself.
\<close>

definition tab_section_flags :: "(metric \<Rightarrow> bool) option \<Rightarrow> metric list \<Rightarrow> bool list" where
  "tab_section_flags criticalCheck metrics =
     map (\<lambda>m. case criticalCheck of None \<Rightarrow> False | Some f \<Rightarrow> f m) metrics"

definition dashboard_section_flags :: "metric list \<Rightarrow> bool list" where
  "dashboard_section_flags metrics =
     map (\<lambda>m. (metric_type m = ''pue'' \<and> js_gt (metric_value m) 2.0) \<or>
               (metric_type m = ''utilization_pct'' \<and> js_lt (metric_value m) 30) \<or>
               (metric_type m = ''wue'' \<and> js_gt (metric_value m) 2.0)) metrics"

text \<open>
  The metrics report: each category may be missing. \<open>metricsQuery.data || {}\<close> makes a
  report that has not arrived (\<open>None\<close>) one with every category missing.
\<close>

record report =
  carbon :: "metric list option"
  water :: "metric list option"
  efficiency :: "metric list option"
  hardware :: "metric list option"
  data_quality :: "metric list option"
  sustainability_score :: "real option"

definition category :: "(report \<Rightarrow> metric list option) \<Rightarrow> report option \<Rightarrow> metric list option" where
  "category sel data = (case data of None \<Rightarrow> None | Some r \<Rightarrow> sel r)"

text \<open>\<open>x || null\<close> on a number that may be \<open>undefined\<close>: zero and \<open>undefined\<close> become \<open>null\<close>.\<close>

definition or_null :: "real option \<Rightarrow> real option" where
  "or_null x = (case x of None \<Rightarrow> None | Some v \<Rightarrow> if v = 0 then None else Some v)"

text \<open>\<open>list?.find((m) => m.metric_type === ty)?.value\<close>.\<close>

definition find_value :: "string \<Rightarrow> metric list option \<Rightarrow> real option" where
  "find_value ty list =
     (case list of None \<Rightarrow> None
      | Some ms \<Rightarrow> (case find (\<lambda>m. metric_type m = ty) ms of
                     None \<Rightarrow> None | Some m \<Rightarrow> metric_value m))"

text \<open>The two lookups of \<open>summaryStats\<close> (the same in both dashboards).\<close>

definition avgPUE :: "report option \<Rightarrow> real option" where
  "avgPUE data = or_null (find_value ''pue'' (category efficiency data))"

definition avgUtilization :: "report option \<Rightarrow> real option" where
  "avgUtilization data = or_null (find_value ''utilization_pct'' (category hardware data))"

text \<open>
  The summary cards of the dashboard tab: a card is rendered when its statistic is not
  \<open>null\<close> (\<open>None\<close>: no card), with the flag \<open>critical\<close>. The "Performance Alerts" banner
  repeats the two tests.
\<close>

definition pue_card :: "report option \<Rightarrow> bool option" where
  "pue_card data = (case avgPUE data of None \<Rightarrow> None | Some v \<Rightarrow> Some (v > 2.0))"

definition utilization_card :: "report option \<Rightarrow> bool option" where
  "utilization_card data = (case avgUtilization data of None \<Rightarrow> None | Some v \<Rightarrow> Some (v < 30))"

definition performance_alerts :: "report option \<Rightarrow> bool" where
  "performance_alerts data =
     ((avgPUE data \<noteq> None \<and> js_gt (avgPUE data) 2.0) \<or>
      (avgUtilization data \<noteq> None \<and> js_lt (avgUtilization data) 30))"

text \<open>
  The stand-alone dashboard renders the same two cards inside a grid shown when
  \<open>totalCarbon > 0 || totalWater > 0 || avgPUE || avgUtilization\<close>. The totals are
  floating-point sums; whether one is positive is the parameter \<open>totals_positive\<close>.
\<close>

definition summary_grid :: "bool \<Rightarrow> report option \<Rightarrow> bool" where
  "summary_grid totals_positive data =
     (totals_positive \<or> avgPUE data \<noteq> None \<or> avgUtilization data \<noteq> None)"

definition dashboard_pue_card :: "bool \<Rightarrow> report option \<Rightarrow> bool option" where
  "dashboard_pue_card totals_positive data =
     (if summary_grid totals_positive data then pue_card data else None)"

definition dashboard_utilization_card :: "bool \<Rightarrow> report option \<Rightarrow> bool option" where
  "dashboard_utilization_card totals_positive data =
     (if summary_grid totals_positive data then utilization_card data else None)"

section \<open>Ingestion mutation flow\<close>

text \<open>
  \<open>ingestTelemetry\<close> of the telemetry API module: optional headers, the URL chosen by
  \<open>includeScorecard\<close>, and a POST through the shared client. An option that is
  \<open>undefined\<close> is \<open>None\<close>.
\<close>

definition header_if :: "string \<Rightarrow> string option \<Rightarrow> (string \<times> string) list" where
  "header_if h v = (case v of None \<Rightarrow> [] | Some s \<Rightarrow> if s = [] then [] else [(h, s)])"

definition ingestTelemetry ::
  "json \<Rightarrow> bool \<Rightarrow> string option \<Rightarrow> string option \<Rightarrow> string option \<Rightarrow> effect" where
  "ingestTelemetry body scorecard source_id ingestion_source request_id =
     Post (if scorecard then ''/api/telemetry/ingest?scorecard=1'' else ''/api/telemetry/ingest'')
          (header_if ''X-Source-ID'' source_id @
           header_if ''X-Ingestion-Source'' ingestion_source @
           header_if ''X-Request-ID'' request_id)
          body"

text \<open>\<open>processTelemetry\<close> of the alerts API module.\<close>

definition processTelemetry :: "json \<Rightarrow> effect" where
  "processTelemetry body = Post ''/api/alerts/process-telemetry'' [] body"

text \<open>\<open>s || undefined\<close> on a string.\<close>

definition or_undefined :: "string \<Rightarrow> string option" where
  "or_undefined s = (if s = [] then None else Some s)"

text \<open>The \<open>mutationFn\<close> of the two mutations of the ingestion tab.\<close>

definition sustainabilityMutation :: "ingestion_tab \<Rightarrow> json \<Rightarrow> effect" where
  "sustainabilityMutation st body =
     ingestTelemetry body (includeScorecard st) (or_undefined (sourceId st))
       (or_undefined (ingestionSource st)) None"

definition legacyMutation :: "ingestion_tab \<Rightarrow> json \<Rightarrow> effect" where
  "legacyMutation st body = processTelemetry body"

text \<open>
  The timestamp step of \<open>handleSubmit\<close>:
  \<open>if (!payload.timestamp) payload.timestamp = new Date().toISOString()\<close>.
  Reading a property of \<open>null\<close> raises a TypeError, and so does writing a property of a
  primitive (the file is a module, hence strict code); \<open>type_error v\<close> is the engine's
  message for the value \<open>v\<close>. On an array the write succeeds and adds a property that is
  not an element, so the body that is serialised is the array as parsed.
\<close>

definition ensure_timestamp :: "(json \<Rightarrow> string) \<Rightarrow> string \<Rightarrow> json \<Rightarrow> string + json" where
  "ensure_timestamp type_error now_iso payload =
     (case payload of
        JNull \<Rightarrow> Inl (type_error payload)
      | JObj kvs \<Rightarrow>
          if truthy_opt (map_of kvs ''timestamp'') then Inr payload
          else Inr (JObj (set_prop ''timestamp'' (JStr now_iso) kvs))
      | JArr xs \<Rightarrow> Inr payload
      | _ \<Rightarrow> Inl (type_error payload))"

text \<open>
  \<open>handleSubmit\<close>: its effects (it changes no state itself; the buffer is cleared later, by
  \<open>onSuccess\<close>). Every exception of the \<open>try\<close> block ends in the same notice.
\<close>

definition handleSubmit ::
  "parser \<Rightarrow> (json \<Rightarrow> string) \<Rightarrow> string \<Rightarrow> ingestion_tab \<Rightarrow> effect list" where
  "handleSubmit JSON_parse type_error now_iso st =
     (if trim (jsonInput st) = [] then [Alert ''Please enter JSON payload or load an example'']
      else case JSON_parse (jsonInput st) of
        Inl msg \<Rightarrow> [Alert (''Invalid JSON: '' @ msg)]
      | Inr payload \<Rightarrow>
          if ingestionType st = ''sustainability'' then
            (case ensure_timestamp type_error now_iso payload of
               Inl msg \<Rightarrow> [Alert (''Invalid JSON: '' @ msg)]
             | Inr body \<Rightarrow> [sustainabilityMutation st body])
          else [legacyMutation st payload])"

section \<open>HTTP client wrappers\<close>

text \<open>
  \<open>new Error(x)\<close> converts \<open>x\<close> to a string. \<open>num_to_string\<close> is the engine's rendering of
  a Number; an object becomes \<open>[object Object]\<close>; an array joins its elements with commas,
  \<open>null\<close> elements as the empty string.
\<close>

fun js_String :: "(real \<Rightarrow> string) \<Rightarrow> json \<Rightarrow> string"
  and js_join :: "(real \<Rightarrow> string) \<Rightarrow> json list \<Rightarrow> string"
  and js_element :: "(real \<Rightarrow> string) \<Rightarrow> json \<Rightarrow> string" where
  "js_String num_to_string JNull = ''null''"
| "js_String num_to_string (JBool b) = (if b then ''true'' else ''false'')"
| "js_String num_to_string (JNum n) = num_to_string n"
| "js_String num_to_string (JStr s) = s"
| "js_String num_to_string (JArr xs) = js_join num_to_string xs"
| "js_String num_to_string (JObj kvs) = ''[object Object]''"
| "js_join num_to_string [] = []"
| "js_join num_to_string [x] = js_element num_to_string x"
| "js_join num_to_string (x # y # ys) =
     js_element num_to_string x @ '','' @ js_join num_to_string (y # ys)"
| "js_element num_to_string JNull = []"
| "js_element num_to_string (JBool b) = js_String num_to_string (JBool b)"
| "js_element num_to_string (JNum n) = js_String num_to_string (JNum n)"
| "js_element num_to_string (JStr s) = js_String num_to_string (JStr s)"
| "js_element num_to_string (JArr xs) = js_String num_to_string (JArr xs)"
| "js_element num_to_string (JObj kvs) = js_String num_to_string (JObj kvs)"

text \<open>The uniform error both wrappers build: \<open>message\<close>, \<open>status\<close> and \<open>data\<close>.\<close>

record api_error =
  err_message :: string
  err_status :: "int option"
  err_data :: "json option"

subsection \<open>The axios client of the single-page application\<close>

text \<open>
  \<open>errorMessage(data)\<close>; the result \<open>None\<close> is \<open>null\<close>. \<open>typeof err === 'object'\<close> holds
  of objects and arrays (and of \<open>null\<close>, which the test \<open>err &&\<close> has excluded).
\<close>

definition typeof_object :: "json option \<Rightarrow> bool" where
  "typeof_object v =
     (case v of Some JNull \<Rightarrow> True | Some (JObj kvs) \<Rightarrow> True | Some (JArr xs) \<Rightarrow> True
      | _ \<Rightarrow> False)"

definition typeof_string :: "json option \<Rightarrow> bool" where
  "typeof_string v = (case v of Some (JStr s) \<Rightarrow> True | _ \<Rightarrow> False)"

text \<open>\<open>x ?? null\<close>: \<open>null\<close> and \<open>undefined\<close> both give \<open>null\<close>.\<close>

definition nullish :: "json option \<Rightarrow> json option" where
  "nullish v = (case v of Some JNull \<Rightarrow> None | _ \<Rightarrow> v)"

definition errorMessage :: "json option \<Rightarrow> json option" where
  "errorMessage data =
     (if \<not> truthy_opt data then None
      else let err = opt_prop data ''error'' in
        if truthy_opt err \<and> typeof_object err \<and> truthy_opt (opt_prop err ''message'')
        then opt_prop err ''message''
        else if typeof_string err then err
        else nullish (opt_prop data ''message''))"

text \<open>
  The error that axios hands to the response interceptor: its own message, and the
  response when one arrived (any status outside 2xx).
\<close>

record axios_response =
  resp_status :: int
  resp_data :: "json option"

record axios_error =
  ax_message :: string
  ax_response :: "axios_response option"

definition response_data :: "axios_error \<Rightarrow> json option" where
  "response_data err = (case ax_response err of None \<Rightarrow> None | Some r \<Rightarrow> resp_data r)"

text \<open>The rejection handler of \<open>client.interceptors.response.use\<close>.\<close>

definition onRejected :: "(real \<Rightarrow> string) \<Rightarrow> axios_error \<Rightarrow> api_error" where
  "onRejected num_to_string err =
     \<lparr> err_message = (case errorMessage (response_data err) of
                         None \<Rightarrow> ax_message err
                       | Some v \<Rightarrow> js_String num_to_string v),
       err_status = map_option resp_status (ax_response err),
       err_data = response_data err \<rparr>"

subsection \<open>The fetch wrapper of the legacy page\<close>

text \<open>What \<open>request\<close> sees of the response of \<open>fetch\<close>, with the body text read.\<close>

record fetch_response =
  res_status :: int
  res_statusText :: string
  res_text :: string

definition res_ok :: "fetch_response \<Rightarrow> bool" where
  "res_ok res = (200 \<le> res_status res \<and> res_status res \<le> 299)"

text \<open>
  A chain \<open>a || b || c || d\<close> whose last operand is defined: the first truthy operand,
  or the last.
\<close>

fun first_truthy :: "json option list \<Rightarrow> json \<Rightarrow> json" where
  "first_truthy [] d = d"
| "first_truthy (None # rest) d = first_truthy rest d"
| "first_truthy (Some v # rest) d = (if truthy v then v else first_truthy rest d)"

text \<open>
  \<open>request\<close>, from the response on: the body is parsed (\<open>null\<close> when empty, the raw text
  when it does not parse); a status outside 2xx throws the error (\<open>Inl\<close>), otherwise the
  parsed body is returned.
\<close>

definition request :: "parser \<Rightarrow> (real \<Rightarrow> string) \<Rightarrow> fetch_response \<Rightarrow> api_error + json" where
  "request JSON_parse num_to_string res =
     (let data = (if res_text res = [] then JNull
                  else case JSON_parse (res_text res) of
                         Inl msg \<Rightarrow> JStr (res_text res) | Inr v \<Rightarrow> v)
      in if \<not> res_ok res then
           Inl \<lparr> err_message =
                   js_String num_to_string
                     (first_truthy
                        [get_prop data ''error'', get_prop data ''message'',
                         Some (JStr (res_statusText res))]
                        (JStr (''HTTP '' @ show_int (res_status res)))),
                 err_status = Some (res_status res),
                 err_data = Some data \<rparr>
         else Inr data)"

section \<open>Verified properties\<close>

subsection \<open>Decimal rendering\<close>

text \<open>
  The decimal rendering of an integer has no minus sign after its first character, and
  different integers render differently, also in front of a separator \<open>-\<close>.
\<close>

lemma digit_char_inj:
  "d < 10 \<Longrightarrow> e < 10 \<Longrightarrow> digit_char d = digit_char e \<Longrightarrow> d = e"
proof -
  assume d: "d < 10" and e: "e < 10" and eq: "digit_char d = digit_char e"
  have dist: "distinct ''0123456789''" by simp
  have "d < length ''0123456789''" "e < length ''0123456789''" using d e by simp_all
  with dist eq show ?thesis unfolding digit_char_def by (simp only: nth_eq_iff_index_eq)
qed

lemma digit_char_not_minus: "d < 10 \<Longrightarrow> digit_char d \<noteq> CHR ''-''"
proof -
  assume "d < 10"
  then have "digit_char d \<in> set ''0123456789''"
    unfolding digit_char_def by (intro nth_mem) simp
  then show ?thesis by auto
qed

lemma show_nat_nonempty: "show_nat n \<noteq> []"
  by (subst show_nat.simps) simp

lemma show_nat_no_minus: "CHR ''-'' \<notin> set (show_nat n)"
proof (induction n rule: show_nat.induct)
  case (1 n)
  show ?case
  proof (cases "n < 10")
    case True
    then show ?thesis using digit_char_not_minus [of n] by (subst show_nat.simps) auto
  next
    case False
    then show ?thesis using 1 digit_char_not_minus [of "n mod 10"]
      by (subst show_nat.simps) auto
  qed
qed

lemma show_nat_inj: "show_nat n = show_nat m \<Longrightarrow> n = m"
proof (induction n arbitrary: m rule: show_nat.induct)
  case (1 n)
  show ?case
  proof (cases "n < 10")
    case n: True
    show ?thesis
    proof (cases "m < 10")
      case True
      with n 1(2) show ?thesis
        by (simp add: show_nat.simps [of n] show_nat.simps [of m] digit_char_inj)
    next
      case False
      with n 1(2) show_nat_nonempty [of "m div 10"] show ?thesis
        by (simp add: show_nat.simps [of n] show_nat.simps [of m])
    qed
  next
    case n: False
    show ?thesis
    proof (cases "m < 10")
      case True
      with n 1(2) show_nat_nonempty [of "n div 10"] show ?thesis
        by (simp add: show_nat.simps [of n] show_nat.simps [of m])
    next
      case False
      with n 1(2) have eq: "show_nat (n div 10) = show_nat (m div 10)"
        and dg: "digit_char (n mod 10) = digit_char (m mod 10)"
        by (simp_all add: show_nat.simps [of n] show_nat.simps [of m])
      from 1(1) [OF n eq] have "n div 10 = m div 10" .
      moreover from dg have "n mod 10 = m mod 10" by (intro digit_char_inj) simp_all
      ultimately show ?thesis by (metis div_mult_mod_eq)
    qed
  qed
qed

lemma show_nat_prefix:
  "takeWhile (\<lambda>c. c \<noteq> CHR ''-'') (show_nat n @ CHR ''-'' # s) = show_nat n"
proof -
  have "x \<notin> set xs \<Longrightarrow> takeWhile (\<lambda>c. c \<noteq> x) (xs @ x # ys) = xs" for x :: char and xs ys
    by (induction xs) auto
  then show ?thesis using show_nat_no_minus [of n] by blast
qed

lemma show_nat_sep_inj:
  assumes "show_nat n @ CHR ''-'' # s = show_nat m @ CHR ''-'' # t"
  shows "n = m \<and> s = t"
proof -
  have "show_nat n = show_nat m"
    using arg_cong [OF assms, of "takeWhile (\<lambda>c. c \<noteq> CHR ''-'')"]
    by (simp only: show_nat_prefix)
  then show ?thesis using assms show_nat_inj by auto
qed

lemma show_nat_hd: "hd (show_nat n) \<noteq> CHR ''-''"
  using show_nat_no_minus [of n] show_nat_nonempty [of n] by (cases "show_nat n") auto

lemma show_int_sep_inj:
  assumes "show_int a @ CHR ''-'' # s = show_int b @ CHR ''-'' # t"
  shows "a = b \<and> s = t"
proof (cases "a < 0"; cases "b < 0")
  assume "a < 0" "b < 0"
  with assms show_nat_sep_inj [of "nat (- a)" s "nat (- b)" t] show ?thesis
    by (auto simp: show_int_def)
next
  assume ab: "a < 0" "\<not> b < 0"
  with assms have "CHR ''-'' # show_nat (nat (- a)) @ CHR ''-'' # s = show_nat (nat b) @ CHR ''-'' # t"
    by (simp add: show_int_def)
  then have "hd (show_nat (nat b) @ CHR ''-'' # t) = CHR ''-''" by (metis list.sel(1))
  then show ?thesis using show_nat_hd [of "nat b"] show_nat_nonempty [of "nat b"] by simp
next
  assume ab: "\<not> a < 0" "b < 0"
  with assms have "show_nat (nat a) @ CHR ''-'' # s = CHR ''-'' # show_nat (nat (- b)) @ CHR ''-'' # t"
    by (simp add: show_int_def)
  then have "hd (show_nat (nat a) @ CHR ''-'' # s) = CHR ''-''" by (metis list.sel(1))
  then show ?thesis using show_nat_hd [of "nat a"] show_nat_nonempty [of "nat a"] by simp
next
  assume "\<not> a < 0" "\<not> b < 0"
  with assms show_nat_sep_inj [of "nat a" s "nat b" t] show ?thesis
    by (auto simp: show_int_def)
qed

lemma show_int_inj: "show_int a = show_int b \<Longrightarrow> a = b"
  using show_int_sep_inj [of a "[]" b "[]"] by simp

lemma uniqueId_eq_iff:
  "uniqueId r1 = uniqueId r2 \<longleftrightarrow>
     clock_ms r1 = clock_ms r2 \<and> take 7 (drop 2 (random36 r1)) = take 7 (drop 2 (random36 r2))"
  using show_int_sep_inj [of "clock_ms r1" "take 7 (drop 2 (random36 r1))"
                             "clock_ms r2" "take 7 (drop 2 (random36 r2))"]
  by (auto simp: uniqueId_def)

subsection \<open>Mock payload catalog\<close>

lemma sustainability_fields:
  assumes "m \<in> set SUSTAINABILITY_MOCKS"
  shows "get_prop (getMockPayload r m) ''timestamp'' = Some (JStr (now r))"
    and "get_prop (getMockPayload r m) ''external_event_id'' = Some (JStr (uniqueId r))"
  using assms
  by (auto simp: SUSTAINABILITY_MOCKS_def getMockPayload_def mock_ai_training_full_def
      mock_ai_inference_serving_def mock_colocation_energy_def mock_water_intensive_def
      mock_hpc_research_def mock_edge_minimal_def mock_full_benchmark_def
      mock_carbon_intensive_def mock_data_quality_focus_def)

lemma legacy_static:
  assumes "m \<in> set LEGACY_MOCKS"
  shows "getMockPayload r1 m = getMockPayload r2 m"
    and "get_prop (getMockPayload r1 m) ''timestamp'' = None"
    and "get_prop (getMockPayload r1 m) ''external_event_id'' = None"
  using assms
  by (auto simp: LEGACY_MOCKS_def getMockPayload_def mock_legacy_normal_def
      mock_legacy_warning_def mock_legacy_critical_def)

text \<open>
  C1 (as the code has it). A realization of a descriptor of \<open>SUSTAINABILITY_MOCKS\<close>
  carries the clock reading of the call as \<open>timestamp\<close> and
  \<open>mock-<Date.now()>-<seven characters of the random source>\<close> as \<open>external_event_id\<close>;
  two realizations of one descriptor have the same identifier exactly when both their
  millisecond readings and their random suffixes agree. A descriptor of \<open>LEGACY_MOCKS\<close>
  realizes to the same payload at every call, with neither field.
\<close>

theorem preset_realizations:
  "(\<forall>m \<in> set SUSTAINABILITY_MOCKS.
      get_prop (getMockPayload r1 m) ''timestamp'' = Some (JStr (clock_iso r1))
      \<and> get_prop (getMockPayload r1 m) ''external_event_id'' =
          Some (JStr (''mock-'' @ show_int (clock_ms r1) @ ''-'' @ take 7 (drop 2 (random36 r1))))
      \<and> (get_prop (getMockPayload r1 m) ''external_event_id'' =
           get_prop (getMockPayload r2 m) ''external_event_id''
         \<longleftrightarrow> clock_ms r1 = clock_ms r2
             \<and> take 7 (drop 2 (random36 r1)) = take 7 (drop 2 (random36 r2))))
   \<and> (\<forall>l \<in> set LEGACY_MOCKS.
      getMockPayload r1 l = getMockPayload r2 l
      \<and> get_prop (getMockPayload r1 l) ''timestamp'' = None
      \<and> get_prop (getMockPayload r1 l) ''external_event_id'' = None)"
proof (intro conjI ballI)
  fix m assume m: "m \<in> set SUSTAINABILITY_MOCKS"
  show "get_prop (getMockPayload r1 m) ''timestamp'' = Some (JStr (clock_iso r1))"
    using sustainability_fields(1) [OF m, of r1] by (simp add: now_def)
  have id: "get_prop (getMockPayload r m) ''external_event_id'' = Some (JStr (uniqueId r))" for r
    by (rule sustainability_fields(2) [OF m])
  show "get_prop (getMockPayload r1 m) ''external_event_id'' =
        Some (JStr (''mock-'' @ show_int (clock_ms r1) @ ''-'' @ take 7 (drop 2 (random36 r1))))"
    by (simp add: id uniqueId_def)
  show "get_prop (getMockPayload r1 m) ''external_event_id'' =
          get_prop (getMockPayload r2 m) ''external_event_id''
        \<longleftrightarrow> clock_ms r1 = clock_ms r2
            \<and> take 7 (drop 2 (random36 r1)) = take 7 (drop 2 (random36 r2))"
    by (simp add: id uniqueId_eq_iff)
next
  fix l assume l: "l \<in> set LEGACY_MOCKS"
  show "getMockPayload r1 l = getMockPayload r2 l" by (rule legacy_static(1) [OF l])
  show "get_prop (getMockPayload r1 l) ''timestamp'' = None" by (rule legacy_static(2) [OF l])
  show "get_prop (getMockPayload r1 l) ''external_event_id'' = None"
    by (rule legacy_static(3) [OF l])
qed

text \<open>
  The witness: the edge preset realized at two consecutive milliseconds with the same
  random reading has two different identifiers; the legacy warning preset realized at the
  same two moments gives one payload.
\<close>

theorem preset_realizations_witness:
  "mock_edge_minimal \<in> set SUSTAINABILITY_MOCKS
   \<and> get_prop (getMockPayload
        \<lparr> clock_iso = ''2024-01-01T00:00:00.000Z'', clock_ms = 1704067200000,
          random36 = ''0.k3f9x2a7q1'' \<rparr> mock_edge_minimal) ''external_event_id'' \<noteq>
      get_prop (getMockPayload
        \<lparr> clock_iso = ''2024-01-01T00:00:00.001Z'', clock_ms = 1704067200001,
          random36 = ''0.k3f9x2a7q1'' \<rparr> mock_edge_minimal) ''external_event_id''
   \<and> mock_legacy_warning \<in> set LEGACY_MOCKS
   \<and> getMockPayload
        \<lparr> clock_iso = ''2024-01-01T00:00:00.000Z'', clock_ms = 1704067200000,
          random36 = ''0.k3f9x2a7q1'' \<rparr> mock_legacy_warning =
      getMockPayload
        \<lparr> clock_iso = ''2024-01-01T00:00:00.001Z'', clock_ms = 1704067200001,
          random36 = ''0.k3f9x2a7q1'' \<rparr> mock_legacy_warning"
proof -
  have m: "mock_edge_minimal \<in> set SUSTAINABILITY_MOCKS"
    by (simp add: SUSTAINABILITY_MOCKS_def)
  have l: "mock_legacy_warning \<in> set LEGACY_MOCKS"
    by (simp add: LEGACY_MOCKS_def)
  show ?thesis
    using m l
      preset_realizations [
      of "\<lparr> clock_iso = ''2024-01-01T00:00:00.000Z'', clock_ms = 1704067200000,
            random36 = ''0.k3f9x2a7q1'' \<rparr>"
         "\<lparr> clock_iso = ''2024-01-01T00:00:00.001Z'', clock_ms = 1704067200001,
            random36 = ''0.k3f9x2a7q1'' \<rparr>",
      THEN conjunct2, THEN bspec, OF l, THEN conjunct1]
      preset_realizations [
      of "\<lparr> clock_iso = ''2024-01-01T00:00:00.000Z'', clock_ms = 1704067200000,
            random36 = ''0.k3f9x2a7q1'' \<rparr>"
         "\<lparr> clock_iso = ''2024-01-01T00:00:00.001Z'', clock_ms = 1704067200001,
            random36 = ''0.k3f9x2a7q1'' \<rparr>",
      THEN conjunct1, THEN bspec, OF m, THEN conjunct2, THEN conjunct2]
    by simp
qed

text \<open>
  The claim as stated fails on the legacy catalog: the "Legacy Normal" preset realized at
  two different moments gives the same payload, and it has no event identifier and no
  timestamp to tell the two apart.
\<close>

theorem legacy_mock_realized_twice_counterexample:
  "mock_legacy_normal \<in> set LEGACY_MOCKS
   \<and> getMockPayload
        \<lparr> clock_iso = ''2024-01-01T00:00:00.000Z'', clock_ms = 1704067200000,
          random36 = ''0.k3f9x2a7q1'' \<rparr> mock_legacy_normal =
      getMockPayload
        \<lparr> clock_iso = ''2024-01-01T00:00:05.000Z'', clock_ms = 1704067205000,
          random36 = ''0.8zt04mbd2p'' \<rparr> mock_legacy_normal
   \<and> get_prop (getMockPayload
        \<lparr> clock_iso = ''2024-01-01T00:00:00.000Z'', clock_ms = 1704067200000,
          random36 = ''0.k3f9x2a7q1'' \<rparr> mock_legacy_normal) ''external_event_id'' = None
   \<and> get_prop (getMockPayload
        \<lparr> clock_iso = ''2024-01-01T00:00:00.000Z'', clock_ms = 1704067200000,
          random36 = ''0.k3f9x2a7q1'' \<rparr> mock_legacy_normal) ''timestamp'' = None"
  by (simp add: LEGACY_MOCKS_def getMockPayload_def mock_legacy_normal_def)

subsection \<open>Dashboard aggregation\<close>

text \<open>
  C2. The critical-condition predicate holds of a metric exactly when it is a \<open>pue\<close> or a
  \<open>wue\<close> metric with a value above 2.0, or a \<open>utilization_pct\<close> metric with a value below
  30. The comparisons are strict: 2.0 and 30.0 themselves are not critical. The detail
  modal and the sections of both dashboards compute the same test for each metric they are
  given.
\<close>

theorem critical_predicate:
  "(isCritical m \<longleftrightarrow>
      (metric_type m = ''pue'' \<and> (\<exists>v. metric_value m = Some v \<and> v > 2.0))
      \<or> (metric_type m = ''wue'' \<and> (\<exists>v. metric_value m = Some v \<and> v > 2.0))
      \<or> (metric_type m = ''utilization_pct'' \<and> (\<exists>v. metric_value m = Some v \<and> v < 30)))
   \<and> modal_isCritical m = isCritical m
   \<and> dashboard_section_flags ms = map isCritical ms
   \<and> tab_section_flags (Some isCritical) ms = map isCritical ms
   \<and> \<not> isCritical (m\<lparr> metric_type := ''pue'', metric_value := Some 2.0 \<rparr>)
   \<and> \<not> isCritical (m\<lparr> metric_type := ''wue'', metric_value := Some 2.0 \<rparr>)
   \<and> \<not> isCritical (m\<lparr> metric_type := ''utilization_pct'', metric_value := Some 30.0 \<rparr>)
   \<and> isCritical (m\<lparr> metric_type := ''pue'', metric_value := Some 2.5 \<rparr>)
   \<and> \<not> isCritical (m\<lparr> metric_type := ''pue'', metric_value := Some 1.9 \<rparr>)
   \<and> isCritical (m\<lparr> metric_type := ''utilization_pct'', metric_value := Some 29.9 \<rparr>)"
  by (auto simp: isCritical_def modal_isCritical_def dashboard_section_flags_def
      tab_section_flags_def js_gt_def js_lt_def split: option.splits)

lemma or_null_never_zero: "or_null x \<noteq> Some 0"
  by (simp add: or_null_def split: option.splits)

lemma avgPUE_absent:
  "efficiency r = Some ms \<Longrightarrow> find (\<lambda>m. metric_type m = ''pue'') ms = Some m \<Longrightarrow>
   metric_value m = Some 0 \<or> metric_value m = None \<Longrightarrow> avgPUE (Some r) = None"
  by (auto simp: avgPUE_def find_value_def category_def or_null_def)

lemma avgUtilization_absent:
  "hardware r = Some hs \<Longrightarrow> find (\<lambda>m. metric_type m = ''utilization_pct'') hs = Some h \<Longrightarrow>
   metric_value h = Some 0 \<or> metric_value h = None \<Longrightarrow> avgUtilization (Some r) = None"
  by (auto simp: avgUtilization_def find_value_def category_def or_null_def)

lemma no_pue_flags:
  "avgPUE data = None \<Longrightarrow>
   pue_card data = None \<and> dashboard_pue_card totals_positive data = None
   \<and> performance_alerts data = js_lt (avgUtilization data) 30"
  by (cases "avgUtilization data")
     (simp_all add: pue_card_def dashboard_pue_card_def performance_alerts_def js_gt_def js_lt_def)

lemma no_utilization_flags:
  "avgUtilization data = None \<Longrightarrow>
   utilization_card data = None \<and> dashboard_utilization_card totals_positive data = None
   \<and> performance_alerts data = js_gt (avgPUE data) 2.0"
  by (cases "avgPUE data")
     (simp_all add: utilization_card_def dashboard_utilization_card_def performance_alerts_def
        js_gt_def js_lt_def)

text \<open>
  C10. The summary lookups never report zero. When the first \<open>pue\<close> metric of the
  efficiency category has the value 0 or no value, the summary PUE is absent, no PUE card
  is rendered in either dashboard, and only the utilization test can raise the performance
  banner; likewise for the first \<open>utilization_pct\<close> metric of the hardware category.
\<close>

theorem summary_lookups_collapse_zero:
  "avgPUE data \<noteq> Some 0 \<and> avgUtilization data \<noteq> Some 0
   \<and> (efficiency r = Some ms \<and> find (\<lambda>m. metric_type m = ''pue'') ms = Some m
        \<and> (metric_value m = Some 0 \<or> metric_value m = None) \<longrightarrow>
      avgPUE (Some r) = None \<and> pue_card (Some r) = None
      \<and> dashboard_pue_card totals_positive (Some r) = None
      \<and> performance_alerts (Some r) = js_lt (avgUtilization (Some r)) 30)
   \<and> (hardware r = Some hs \<and> find (\<lambda>m. metric_type m = ''utilization_pct'') hs = Some h
        \<and> (metric_value h = Some 0 \<or> metric_value h = None) \<longrightarrow>
      avgUtilization (Some r) = None \<and> utilization_card (Some r) = None
      \<and> dashboard_utilization_card totals_positive (Some r) = None
      \<and> performance_alerts (Some r) = js_gt (avgPUE (Some r)) 2.0)"
proof (intro conjI impI)
  show "avgPUE data \<noteq> Some 0" by (simp add: avgPUE_def or_null_never_zero)
  show "avgUtilization data \<noteq> Some 0" by (simp add: avgUtilization_def or_null_never_zero)
next
  assume a: "efficiency r = Some ms \<and> find (\<lambda>m. metric_type m = ''pue'') ms = Some m
        \<and> (metric_value m = Some 0 \<or> metric_value m = None)"
  then have n: "avgPUE (Some r) = None" using avgPUE_absent by blast
  from n show "avgPUE (Some r) = None" .
  from no_pue_flags [OF n, of totals_positive]
  show "pue_card (Some r) = None" "dashboard_pue_card totals_positive (Some r) = None"
    "performance_alerts (Some r) = js_lt (avgUtilization (Some r)) 30" by simp_all
next
  assume a: "hardware r = Some hs \<and> find (\<lambda>m. metric_type m = ''utilization_pct'') hs = Some h
        \<and> (metric_value h = Some 0 \<or> metric_value h = None)"
  then have n: "avgUtilization (Some r) = None" using avgUtilization_absent by blast
  from n show "avgUtilization (Some r) = None" .
  from no_utilization_flags [OF n, of totals_positive]
  show "utilization_card (Some r) = None" "dashboard_utilization_card totals_positive (Some r) = None"
    "performance_alerts (Some r) = js_gt (avgPUE (Some r)) 2.0" by simp_all
qed

text \<open>
  The witness: a report whose PUE and utilization metrics are both 0. Neither statistic is
  present and the banner is off, although the utilization metric itself is critical
  (0 is below 30).
\<close>

theorem summary_lookups_collapse_zero_witness:
  "avgPUE (Some \<lparr> carbon = None, water = None,
       efficiency = Some [\<lparr> metric_type = ''pue'', metric_value = Some 0, metric_unit = None,
         asset_id = None, region = None, timestamp_utc = None \<rparr>],
       hardware = Some [\<lparr> metric_type = ''utilization_pct'', metric_value = Some 0,
         metric_unit = Some ''%'', asset_id = None, region = None, timestamp_utc = None \<rparr>],
       data_quality = None, sustainability_score = None \<rparr>) = None
   \<and> avgUtilization (Some \<lparr> carbon = None, water = None,
       efficiency = Some [\<lparr> metric_type = ''pue'', metric_value = Some 0, metric_unit = None,
         asset_id = None, region = None, timestamp_utc = None \<rparr>],
       hardware = Some [\<lparr> metric_type = ''utilization_pct'', metric_value = Some 0,
         metric_unit = Some ''%'', asset_id = None, region = None, timestamp_utc = None \<rparr>],
       data_quality = None, sustainability_score = None \<rparr>) = None
   \<and> \<not> performance_alerts (Some \<lparr> carbon = None, water = None,
       efficiency = Some [\<lparr> metric_type = ''pue'', metric_value = Some 0, metric_unit = None,
         asset_id = None, region = None, timestamp_utc = None \<rparr>],
       hardware = Some [\<lparr> metric_type = ''utilization_pct'', metric_value = Some 0,
         metric_unit = Some ''%'', asset_id = None, region = None, timestamp_utc = None \<rparr>],
       data_quality = None, sustainability_score = None \<rparr>)
   \<and> isCritical \<lparr> metric_type = ''utilization_pct'', metric_value = Some 0,
         metric_unit = Some ''%'', asset_id = None, region = None, timestamp_utc = None \<rparr>"
proof -
  let ?p = "\<lparr> metric_type = ''pue'', metric_value = Some 0, metric_unit = None,
         asset_id = None, region = None, timestamp_utc = None \<rparr>"
  let ?u = "\<lparr> metric_type = ''utilization_pct'', metric_value = Some 0,
         metric_unit = Some ''%'', asset_id = None, region = None, timestamp_utc = None \<rparr>"
  let ?r = "\<lparr> carbon = None, water = None, efficiency = Some [?p], hardware = Some [?u],
       data_quality = None, sustainability_score = None \<rparr>"
  have crit: "isCritical ?u" by (simp add: isCritical_def js_lt_def)
  show ?thesis
    using crit summary_lookups_collapse_zero [where r = ?r and ms = "[?p]" and m = ?p
        and hs = "[?u]" and h = ?u and data = "Some ?r" and totals_positive = False]
    by (simp add: js_gt_def js_lt_def)
qed

subsection \<open>Custom mock store\<close>

lemma custom_id_inj: "''custom-'' @ show_int a = ''custom-'' @ show_int b \<Longrightarrow> a = b"
  using show_int_inj by simp

lemma save_step_ids:
  "map mock_id (customMocks (save_step P st sv)) = map mock_id (customMocks st)
   \<or> map mock_id (customMocks (save_step P st sv)) =
       (''custom-'' @ show_int (op_now sv)) # map mock_id (customMocks st)"
  by (auto simp: save_step_def handleSaveCustomMock_def Let_def persistCustomMocks_def
      split: sum.splits)

lemma run_saves_ids:
  "distinct (map op_now ops) \<Longrightarrow>
   distinct (map mock_id (customMocks st)) \<Longrightarrow>
   (\<forall>sv \<in> set ops. ''custom-'' @ show_int (op_now sv) \<notin> mock_id ` set (customMocks st)) \<Longrightarrow>
   distinct (map mock_id (customMocks (run_saves P st ops)))"
proof (induction ops arbitrary: st)
  case Nil
  then show ?case by (simp add: run_saves_def)
next
  case (Cons sv ops)
  let ?st = "save_step P st sv"
  from save_step_ids [of P st sv] Cons.prems
  have d: "distinct (map mock_id (customMocks ?st))" by auto
  have f: "\<forall>x \<in> set ops. ''custom-'' @ show_int (op_now x) \<notin> mock_id ` set (customMocks ?st)"
  proof
    fix x assume x: "x \<in> set ops"
    with Cons.prems(1) have ne: "op_now x \<noteq> op_now sv" by (auto simp: image_iff)
    from x Cons.prems(3) have old: "''custom-'' @ show_int (op_now x) \<notin> mock_id ` set (customMocks st)"
      by simp
    have "set (map mock_id (customMocks ?st)) \<subseteq>
          insert (''custom-'' @ show_int (op_now sv)) (set (map mock_id (customMocks st)))"
      using save_step_ids [of P st sv] by (metis list.set(2) subset_insertI order_refl)
    moreover have "''custom-'' @ show_int (op_now x) \<noteq> ''custom-'' @ show_int (op_now sv)"
      using ne custom_id_inj by blast
    ultimately show "''custom-'' @ show_int (op_now x) \<notin> mock_id ` set (customMocks ?st)"
      using old by auto
  qed
  from Cons.prems(1) have "distinct (map op_now ops)" by simp
  from Cons.IH [OF this d f] show ?case by (simp add: run_saves_def)
qed

lemma ws1_trim: "\<forall>c \<in> set s. ws1 c \<Longrightarrow> trim s = []"
proof -
  assume a: "\<forall>c \<in> set s. ws1 c"
  have "\<forall>c \<in> set s. p1 c \<Longrightarrow> strip p1 p2 p3 s = []" for p1 p2 p3 s
    by (induction p1 p2 p3 s rule: strip.induct) auto
  with a show ?thesis by (simp add: trim_def trimStart_def trimEnd_def)
qed

text \<open>
  C5. A save with a blank name, a blank buffer or a buffer that does not parse leaves the
  whole component state as it was and writes nothing to storage. A save with a name, a
  buffer and a parse puts the new record (time-based id, trimmed name, trimmed buffer text,
  current mode, creation time) in front of the list, and the list is written to storage.
\<close>

theorem save_rejected_or_prepended:
  "(trim (customMockName st) = [] \<or> trim (jsonInput st) = []
      \<or> (\<exists>msg. JSON_parse (jsonInput st) = Inl msg) \<longrightarrow>
      fst (handleSaveCustomMock JSON_parse t ts st) = st
      \<and> (\<forall>k ms. StorageWrite k ms \<notin> set (snd (handleSaveCustomMock JSON_parse t ts st))))
   \<and> (trim (customMockName st) \<noteq> [] \<and> trim (jsonInput st) \<noteq> []
      \<and> JSON_parse (jsonInput st) = Inr v \<longrightarrow>
      customMocks (fst (handleSaveCustomMock JSON_parse t ts st)) =
        \<lparr> mock_id = ''custom-'' @ show_int t, mock_name = trim (customMockName st),
          mock_payload = trim (jsonInput st), mock_type = ingestionType st, savedAt = ts \<rparr>
        # customMocks st
      \<and> snd (handleSaveCustomMock JSON_parse t ts st) =
        [StorageWrite CUSTOM_MOCKS_STORAGE_KEY
          (customMocks (fst (handleSaveCustomMock JSON_parse t ts st)))])"
  by (auto simp: handleSaveCustomMock_def Let_def persistCustomMocks_def split: sum.splits)

text \<open>
  The witness: a name of three spaces is rejected; the name \<open>mine\<close> with the buffer
  \<open>{}\<close> is saved. The parser agrees with \<open>JSON.parse\<close> on the buffer used.
\<close>

theorem save_rejected_or_prepended_witness:
  "trim ''   '' = []
   \<and> handleSaveCustomMock (\<lambda>s. if s = ''{}'' then Inr (JObj []) else Inl ''Unexpected token'')
        1704067200000 ''2024-01-01T00:00:00.000Z''
        \<lparr> ingestionType = ''legacy'', jsonInput = ''{}'', sourceId = [],
          ingestionSource = ''manual-entry'', includeScorecard = False,
          customMockName = ''   '', customMocks = [] \<rparr> =
       (\<lparr> ingestionType = ''legacy'', jsonInput = ''{}'', sourceId = [],
          ingestionSource = ''manual-entry'', includeScorecard = False,
          customMockName = ''   '', customMocks = [] \<rparr>, [])
   \<and> customMocks (fst (handleSaveCustomMock
        (\<lambda>s. if s = ''{}'' then Inr (JObj []) else Inl ''Unexpected token'')
        1704067200000 ''2024-01-01T00:00:00.000Z''
        \<lparr> ingestionType = ''legacy'', jsonInput = ''{}'', sourceId = [],
          ingestionSource = ''manual-entry'', includeScorecard = False,
          customMockName = ''mine'', customMocks = [] \<rparr>)) =
       [\<lparr> mock_id = ''custom-'' @ show_int 1704067200000, mock_name = ''mine'',
          mock_payload = ''{}'', mock_type = ''legacy'',
          savedAt = ''2024-01-01T00:00:00.000Z'' \<rparr>]"
proof -
  have blank: "trim ''   '' = []"
    by (simp add: trim_def trimStart_def trimEnd_def ws1_def)
  have full: "trim ''mine'' = ''mine''" "trim ''{}'' = ''{}''"
    by (simp_all add: trim_def trimStart_def trimEnd_def ws1_def ws2_def ws3_def)
  show ?thesis
    using blank full
      save_rejected_or_prepended [where JSON_parse =
          "\<lambda>s. if s = ''{}'' then Inr (JObj []) else Inl ''Unexpected token''"
        and t = 1704067200000 and ts = "''2024-01-01T00:00:00.000Z''"
        and st = "\<lparr> ingestionType = ''legacy'', jsonInput = ''{}'', sourceId = [],
          ingestionSource = ''manual-entry'', includeScorecard = False,
          customMockName = ''   '', customMocks = [] \<rparr>"]
      save_rejected_or_prepended [where JSON_parse =
          "\<lambda>s. if s = ''{}'' then Inr (JObj []) else Inl ''Unexpected token''"
        and t = 1704067200000 and ts = "''2024-01-01T00:00:00.000Z''" and v = "JObj []"
        and st = "\<lparr> ingestionType = ''legacy'', jsonInput = ''{}'', sourceId = [],
          ingestionSource = ''manual-entry'', includeScorecard = False,
          customMockName = ''mine'', customMocks = [] \<rparr>"]
    by (simp add: handleSaveCustomMock_def)
qed

text \<open>
  C8 (as the code has it). The id of a saved mock is \<open>custom-<Date.now()>\<close>. After any
  sequence of saves whose clock readings are pairwise different, on a list whose ids were
  distinct and are not among the ids these readings give, the ids are distinct.
\<close>

theorem custom_mock_ids_distinct:
  assumes "distinct (map op_now ops)"
    and "distinct (map mock_id (customMocks st))"
    and "\<forall>sv \<in> set ops. ''custom-'' @ show_int (op_now sv) \<notin> mock_id ` set (customMocks st)"
  shows "distinct (map mock_id (customMocks (run_saves JSON_parse st ops)))"
  using assms by (rule run_saves_ids)

text \<open>
  The witness: two saves one millisecond apart, on an empty list.
\<close>

theorem custom_mock_ids_distinct_witness:
  "distinct (map op_now
      [\<lparr> op_name = ''first'', op_input = ''{}'', op_type = ''legacy'',
         op_now = 1704067200000, op_iso = ''2024-01-01T00:00:00.000Z'' \<rparr>,
       \<lparr> op_name = ''second'', op_input = ''{}'', op_type = ''legacy'',
         op_now = 1704067200001, op_iso = ''2024-01-01T00:00:00.001Z'' \<rparr>])
   \<and> length (customMocks (run_saves
        (\<lambda>s. if s = ''{}'' then Inr (JObj []) else Inl ''Unexpected token'')
        \<lparr> ingestionType = ''sustainability'', jsonInput = [], sourceId = [],
          ingestionSource = ''manual-entry'', includeScorecard = False, customMockName = [],
          customMocks = [] \<rparr>
        [\<lparr> op_name = ''first'', op_input = ''{}'', op_type = ''legacy'',
           op_now = 1704067200000, op_iso = ''2024-01-01T00:00:00.000Z'' \<rparr>,
         \<lparr> op_name = ''second'', op_input = ''{}'', op_type = ''legacy'',
           op_now = 1704067200001, op_iso = ''2024-01-01T00:00:00.001Z'' \<rparr>])) = 2
   \<and> distinct (map mock_id (customMocks (run_saves
        (\<lambda>s. if s = ''{}'' then Inr (JObj []) else Inl ''Unexpected token'')
        \<lparr> ingestionType = ''sustainability'', jsonInput = [], sourceId = [],
          ingestionSource = ''manual-entry'', includeScorecard = False, customMockName = [],
          customMocks = [] \<rparr>
        [\<lparr> op_name = ''first'', op_input = ''{}'', op_type = ''legacy'',
           op_now = 1704067200000, op_iso = ''2024-01-01T00:00:00.000Z'' \<rparr>,
         \<lparr> op_name = ''second'', op_input = ''{}'', op_type = ''legacy'',
           op_now = 1704067200001, op_iso = ''2024-01-01T00:00:00.001Z'' \<rparr>])))"
proof -
  let ?ops = "[\<lparr> op_name = ''first'', op_input = ''{}'', op_type = ''legacy'',
         op_now = 1704067200000, op_iso = ''2024-01-01T00:00:00.000Z'' \<rparr>,
       \<lparr> op_name = ''second'', op_input = ''{}'', op_type = ''legacy'',
         op_now = 1704067200001, op_iso = ''2024-01-01T00:00:00.001Z'' \<rparr>]"
  let ?st = "\<lparr> ingestionType = ''sustainability'', jsonInput = [], sourceId = [],
          ingestionSource = ''manual-entry'', includeScorecard = False, customMockName = [],
          customMocks = [] \<rparr>"
  have h1: "distinct (map op_now ?ops)" by simp
  have h2: "distinct (map mock_id (customMocks ?st))" by simp
  have h3: "\<forall>sv \<in> set ?ops. ''custom-'' @ show_int (op_now sv) \<notin> mock_id ` set (customMocks ?st)"
    by simp
  have len: "length (customMocks (run_saves
        (\<lambda>s. if s = ''{}'' then Inr (JObj []) else Inl ''Unexpected token'') ?st ?ops)) = 2"
    by (simp add: run_saves_def save_step_def handleSaveCustomMock_def Let_def trim_def
        trimStart_def trimEnd_def ws1_def ws2_def ws3_def persistCustomMocks_def)
  show ?thesis
    using h1 len custom_mock_ids_distinct [OF h1 h2 h3,
      of "\<lambda>s. if s = ''{}'' then Inr (JObj []) else Inl ''Unexpected token''"]
    by blast
qed

text \<open>
  The claim as stated fails when two saves read the same millisecond: both mocks get the
  id \<open>custom-1704067200000\<close>.
\<close>

theorem same_millisecond_saves_counterexample:
  "\<not> distinct (map mock_id (customMocks (run_saves
        (\<lambda>s. if s = ''{}'' then Inr (JObj []) else Inl ''Unexpected token'')
        \<lparr> ingestionType = ''sustainability'', jsonInput = [], sourceId = [],
          ingestionSource = ''manual-entry'', includeScorecard = False, customMockName = [],
          customMocks = [] \<rparr>
        [\<lparr> op_name = ''first'', op_input = ''{}'', op_type = ''legacy'',
           op_now = 1704067200000, op_iso = ''2024-01-01T00:00:00.000Z'' \<rparr>,
         \<lparr> op_name = ''second'', op_input = ''{}'', op_type = ''legacy'',
           op_now = 1704067200000, op_iso = ''2024-01-01T00:00:00.000Z'' \<rparr>])))"
  by (simp add: run_saves_def save_step_def handleSaveCustomMock_def Let_def trim_def
      trimStart_def trimEnd_def ws1_def ws2_def ws3_def persistCustomMocks_def)

text \<open>
  C9. Deleting by id keeps exactly the mocks whose id differs, in their order and unchanged;
  when no mock has the id the list stays as it is; deleting twice is deleting once. The
  handler has no failing branch.
\<close>

theorem delete_exactly_matching:
  "customMocks (fst (handleDeleteCustomMock i st)) =
     filter (\<lambda>m. mock_id m \<noteq> i) (customMocks st)
   \<and> set (customMocks (fst (handleDeleteCustomMock i st))) =
       {m \<in> set (customMocks st). mock_id m \<noteq> i}
   \<and> (i \<notin> mock_id ` set (customMocks st) \<longrightarrow>
        customMocks (fst (handleDeleteCustomMock i st)) = customMocks st)
   \<and> handleDeleteCustomMock i (fst (handleDeleteCustomMock i st)) = handleDeleteCustomMock i st"
  by (auto simp: handleDeleteCustomMock_def Let_def filter_id_conv)

theorem delete_exactly_matching_witness:
  "''custom-2'' \<notin> mock_id ` set [\<lparr> mock_id = ''custom-1'', mock_name = ''a'', mock_payload = ''{}'',
        mock_type = ''legacy'', savedAt = ''2024-01-01T00:00:00.000Z'' \<rparr>]
   \<and> customMocks (fst (handleDeleteCustomMock ''custom-2''
        \<lparr> ingestionType = ''legacy'', jsonInput = [], sourceId = [],
          ingestionSource = ''manual-entry'', includeScorecard = False, customMockName = [],
          customMocks = [\<lparr> mock_id = ''custom-1'', mock_name = ''a'', mock_payload = ''{}'',
            mock_type = ''legacy'', savedAt = ''2024-01-01T00:00:00.000Z'' \<rparr>] \<rparr>)) =
       [\<lparr> mock_id = ''custom-1'', mock_name = ''a'', mock_payload = ''{}'',
          mock_type = ''legacy'', savedAt = ''2024-01-01T00:00:00.000Z'' \<rparr>]"
  using delete_exactly_matching [of "''custom-2''"
        "\<lparr> ingestionType = ''legacy'', jsonInput = [], sourceId = [],
          ingestionSource = ''manual-entry'', includeScorecard = False, customMockName = [],
          customMocks = [\<lparr> mock_id = ''custom-1'', mock_name = ''a'', mock_payload = ''{}'',
            mock_type = ''legacy'', savedAt = ''2024-01-01T00:00:00.000Z'' \<rparr>] \<rparr>"]
  by simp

subsection \<open>Ingestion mutation flow\<close>

lemma set_prop_fresh: "map_of kvs k = None \<Longrightarrow> set_prop k v kvs = kvs @ [(k, v)]"
  by (induction kvs) (auto split: if_splits)

text \<open>
  C3. In sustainability mode, a buffer that parses as an object without a \<open>timestamp\<close>
  property is submitted with the property added last, set to the clock reading in ISO form;
  an object whose \<open>timestamp\<close> is \<open>2024-01-01T00:00:00Z\<close> is submitted as parsed. In
  the other mode the parsed value is posted to the legacy endpoint as it is.
\<close>

theorem submit_body:
  "(trim (jsonInput st) \<noteq> [] \<and> JSON_parse (jsonInput st) = Inr (JObj kvs)
      \<and> ingestionType st = ''sustainability'' \<and> map_of kvs ''timestamp'' = None \<longrightarrow>
      (\<exists>url headers. handleSubmit JSON_parse type_error ts st =
         [Post url headers (JObj (kvs @ [(''timestamp'', JStr ts)]))]))
   \<and> (trim (jsonInput st) \<noteq> [] \<and> JSON_parse (jsonInput st) = Inr (JObj kvs)
      \<and> ingestionType st = ''sustainability''
      \<and> map_of kvs ''timestamp'' = Some (JStr ''2024-01-01T00:00:00Z'') \<longrightarrow>
      (\<exists>url headers. handleSubmit JSON_parse type_error ts st = [Post url headers (JObj kvs)]))
   \<and> (trim (jsonInput st) \<noteq> [] \<and> JSON_parse (jsonInput st) = Inr v
      \<and> ingestionType st \<noteq> ''sustainability'' \<longrightarrow>
      handleSubmit JSON_parse type_error ts st = [Post ''/api/alerts/process-telemetry'' [] v])"
  by (simp add: handleSubmit_def ensure_timestamp_def truthy_opt_def set_prop_fresh
      sustainabilityMutation_def ingestTelemetry_def legacyMutation_def processTelemetry_def)

text \<open>
  The witness: the buffers \<open>{}\<close> and \<open>{"timestamp":"2024-01-01T00:00:00Z"}\<close> in
  sustainability mode, and \<open>{}\<close> in legacy mode. The parser agrees with \<open>JSON.parse\<close> on
  the buffers used.
\<close>

theorem submit_body_witness:
  \<open>handleSubmit
        (\<lambda>s. if s = ''{}'' then Inr (JObj [])
            else if s = ''{"timestamp":"2024-01-01T00:00:00Z"}''
            then Inr (JObj [(''timestamp'', JStr ''2024-01-01T00:00:00Z'')])
            else Inl ''Unexpected token'')
        (\<lambda>v. ''Cannot create property'') ''2024-06-01T12:00:00.000Z''
        \<lparr> ingestionType = ''sustainability'', jsonInput = ''{}'', sourceId = [],
          ingestionSource = ''manual-entry'', includeScorecard = False,
          customMockName = [], customMocks = [] \<rparr> =
     [Post ''/api/telemetry/ingest'' [(''X-Ingestion-Source'', ''manual-entry'')]
        (JObj [(''timestamp'', JStr ''2024-06-01T12:00:00.000Z'')])]
   \<and> handleSubmit
        (\<lambda>s. if s = ''{}'' then Inr (JObj [])
            else if s = ''{"timestamp":"2024-01-01T00:00:00Z"}''
            then Inr (JObj [(''timestamp'', JStr ''2024-01-01T00:00:00Z'')])
            else Inl ''Unexpected token'')
        (\<lambda>v. ''Cannot create property'') ''2024-06-01T12:00:00.000Z''
        \<lparr> ingestionType = ''sustainability'', jsonInput = ''{"timestamp":"2024-01-01T00:00:00Z"}'', sourceId = [],
          ingestionSource = ''manual-entry'', includeScorecard = False,
          customMockName = [], customMocks = [] \<rparr> =
     [Post ''/api/telemetry/ingest'' [(''X-Ingestion-Source'', ''manual-entry'')]
        (JObj [(''timestamp'', JStr ''2024-01-01T00:00:00Z'')])]
   \<and> handleSubmit
        (\<lambda>s. if s = ''{}'' then Inr (JObj [])
            else if s = ''{"timestamp":"2024-01-01T00:00:00Z"}''
            then Inr (JObj [(''timestamp'', JStr ''2024-01-01T00:00:00Z'')])
            else Inl ''Unexpected token'')
        (\<lambda>v. ''Cannot create property'') ''2024-06-01T12:00:00.000Z''
        \<lparr> ingestionType = ''legacy'', jsonInput = ''{}'', sourceId = [],
          ingestionSource = ''manual-entry'', includeScorecard = False,
          customMockName = [], customMocks = [] \<rparr> =
     [Post ''/api/alerts/process-telemetry'' [] (JObj [])]\<close>
proof -
  have t: \<open>trim ''{}'' = ''{}''\<close>
    \<open>trim ''{"timestamp":"2024-01-01T00:00:00Z"}'' = ''{"timestamp":"2024-01-01T00:00:00Z"}''\<close>
    by (simp_all add: trim_def trimStart_def trimEnd_def ws1_def ws2_def ws3_def)
  show ?thesis
    using t
      submit_body [where JSON_parse = \<open>(\<lambda>s. if s = ''{}'' then Inr (JObj [])
            else if s = ''{"timestamp":"2024-01-01T00:00:00Z"}''
            then Inr (JObj [(''timestamp'', JStr ''2024-01-01T00:00:00Z'')])
            else Inl ''Unexpected token'')\<close>
        and type_error = \<open>(\<lambda>v. ''Cannot create property'')\<close> and ts = \<open>''2024-06-01T12:00:00.000Z''\<close>
        and kvs = \<open>[]\<close> and v = \<open>JObj []\<close>
        and st = \<open>\<lparr> ingestionType = ''sustainability'', jsonInput = ''{}'', sourceId = [],
          ingestionSource = ''manual-entry'', includeScorecard = False,
          customMockName = [], customMocks = [] \<rparr>\<close>]
      submit_body [where JSON_parse = \<open>(\<lambda>s. if s = ''{}'' then Inr (JObj [])
            else if s = ''{"timestamp":"2024-01-01T00:00:00Z"}''
            then Inr (JObj [(''timestamp'', JStr ''2024-01-01T00:00:00Z'')])
            else Inl ''Unexpected token'')\<close>
        and type_error = \<open>(\<lambda>v. ''Cannot create property'')\<close> and ts = \<open>''2024-06-01T12:00:00.000Z''\<close>
        and kvs = \<open>[(''timestamp'', JStr ''2024-01-01T00:00:00Z'')]\<close> and v = \<open>JObj []\<close>
        and st = \<open>\<lparr> ingestionType = ''sustainability'', jsonInput = ''{"timestamp":"2024-01-01T00:00:00Z"}'', sourceId = [],
          ingestionSource = ''manual-entry'', includeScorecard = False,
          customMockName = [], customMocks = [] \<rparr>\<close>]
      submit_body [where JSON_parse = \<open>(\<lambda>s. if s = ''{}'' then Inr (JObj [])
            else if s = ''{"timestamp":"2024-01-01T00:00:00Z"}''
            then Inr (JObj [(''timestamp'', JStr ''2024-01-01T00:00:00Z'')])
            else Inl ''Unexpected token'')\<close>
        and type_error = \<open>(\<lambda>v. ''Cannot create property'')\<close> and ts = \<open>''2024-06-01T12:00:00.000Z''\<close>
        and kvs = \<open>[]\<close> and v = \<open>JObj []\<close>
        and st = \<open>\<lparr> ingestionType = ''legacy'', jsonInput = ''{}'', sourceId = [],
          ingestionSource = ''manual-entry'', includeScorecard = False,
          customMockName = [], customMocks = [] \<rparr>\<close>]
    by (simp add: handleSubmit_def ensure_timestamp_def truthy_opt_def
        sustainabilityMutation_def ingestTelemetry_def header_if_def or_undefined_def
        legacyMutation_def processTelemetry_def)
qed

text \<open>
  C7. In either mode a blank buffer and a buffer that does not parse end in one notice and
  no POST; a POST is made only for a buffer that is not blank and parses.
\<close>

theorem submit_rejected_locally:
  "(trim (jsonInput st) = [] \<or> (\<exists>msg. JSON_parse (jsonInput st) = Inl msg) \<longrightarrow>
      (\<exists>msg. handleSubmit JSON_parse type_error ts st = [Alert msg])
      \<and> (\<forall>url headers body. Post url headers body \<notin> set (handleSubmit JSON_parse type_error ts st)))
   \<and> (Post url headers body \<in> set (handleSubmit JSON_parse type_error ts st) \<longrightarrow>
      trim (jsonInput st) \<noteq> [] \<and> (\<exists>v. JSON_parse (jsonInput st) = Inr v))"
  by (auto simp: handleSubmit_def split: sum.splits if_splits)

text \<open>
  The witness: the buffer \<open>{bad json\<close> ends in the notice; the buffer \<open>{}\<close> is posted.
\<close>

theorem submit_rejected_locally_witness:
  \<open>handleSubmit
        (\<lambda>s. if s = ''{}'' then Inr (JObj [])
            else if s = ''{"timestamp":"2024-01-01T00:00:00Z"}''
            then Inr (JObj [(''timestamp'', JStr ''2024-01-01T00:00:00Z'')])
            else Inl ''Unexpected token'')
        (\<lambda>v. ''Cannot create property'') ''2024-06-01T12:00:00.000Z''
        \<lparr> ingestionType = ''sustainability'', jsonInput = ''{bad json'', sourceId = [],
          ingestionSource = ''manual-entry'', includeScorecard = False,
          customMockName = [], customMocks = [] \<rparr> =
     [Alert ''Invalid JSON: Unexpected token'']
   \<and> Post ''/api/alerts/process-telemetry'' [] (JObj []) \<in> set (handleSubmit
        (\<lambda>s. if s = ''{}'' then Inr (JObj [])
            else if s = ''{"timestamp":"2024-01-01T00:00:00Z"}''
            then Inr (JObj [(''timestamp'', JStr ''2024-01-01T00:00:00Z'')])
            else Inl ''Unexpected token'')
        (\<lambda>v. ''Cannot create property'') ''2024-06-01T12:00:00.000Z''
        \<lparr> ingestionType = ''legacy'', jsonInput = ''{}'', sourceId = [],
          ingestionSource = ''manual-entry'', includeScorecard = False,
          customMockName = [], customMocks = [] \<rparr>)
   \<and> trim ''{}'' \<noteq> []\<close>
proof -
  have t: \<open>trim ''{}'' = ''{}''\<close> \<open>trim ''{bad json'' = ''{bad json''\<close>
    by (simp_all add: trim_def trimStart_def trimEnd_def ws1_def ws2_def ws3_def)
  show ?thesis
    using t
      submit_rejected_locally [where JSON_parse = \<open>(\<lambda>s. if s = ''{}'' then Inr (JObj [])
            else if s = ''{"timestamp":"2024-01-01T00:00:00Z"}''
            then Inr (JObj [(''timestamp'', JStr ''2024-01-01T00:00:00Z'')])
            else Inl ''Unexpected token'')\<close>
        and type_error = \<open>(\<lambda>v. ''Cannot create property'')\<close> and ts = \<open>''2024-06-01T12:00:00.000Z''\<close>
        and url = \<open>''/api/alerts/process-telemetry''\<close> and headers = \<open>[]\<close>
        and body = \<open>JObj []\<close>
        and st = \<open>\<lparr> ingestionType = ''sustainability'', jsonInput = ''{bad json'', sourceId = [],
          ingestionSource = ''manual-entry'', includeScorecard = False,
          customMockName = [], customMocks = [] \<rparr>\<close>]
      submit_rejected_locally [where JSON_parse = \<open>(\<lambda>s. if s = ''{}'' then Inr (JObj [])
            else if s = ''{"timestamp":"2024-01-01T00:00:00Z"}''
            then Inr (JObj [(''timestamp'', JStr ''2024-01-01T00:00:00Z'')])
            else Inl ''Unexpected token'')\<close>
        and type_error = \<open>(\<lambda>v. ''Cannot create property'')\<close> and ts = \<open>''2024-06-01T12:00:00.000Z''\<close>
        and url = \<open>''/api/alerts/process-telemetry''\<close> and headers = \<open>[]\<close>
        and body = \<open>JObj []\<close>
        and st = \<open>\<lparr> ingestionType = ''legacy'', jsonInput = ''{}'', sourceId = [],
          ingestionSource = ''manual-entry'', includeScorecard = False,
          customMockName = [], customMocks = [] \<rparr>\<close>]
    by (simp add: handleSubmit_def legacyMutation_def processTelemetry_def)
qed

subsection \<open>Ingestion history\<close>

lemma shell_event_bound:
  "length (ingestionHistory st) \<le> 20 \<Longrightarrow> length (ingestionHistory (shell_event st ev)) \<le> 20"
  by (cases ev) (simp_all add: handleIngestSuccess_def)

lemma shell_run_bound:
  "length (ingestionHistory st) \<le> 20 \<Longrightarrow>
   length (ingestionHistory (foldl shell_event st evs)) \<le> 20"
  by (induction evs arbitrary: st) (simp_all add: shell_event_bound)

lemma standalone_event_bound:
  "length h \<le> 10 \<Longrightarrow> length (standalone_event h ev) \<le> 10"
  by (cases ev) (simp_all add: portal_onSuccess_def)

lemma standalone_run_bound:
  "length h \<le> 10 \<Longrightarrow> length (foldl standalone_event h evs) \<le> 10"
  by (induction evs arbitrary: h) (simp_all add: standalone_event_bound)

text \<open>
  C4. The history starts empty. After any sequence of successful submissions and clears it
  holds at most 20 entries, in the portal shell and in the stand-alone portal (which keeps
  10). Each append puts the new entry first and keeps the entries before it in their order,
  cutting the list at its end, where the oldest entries are.
\<close>

theorem history_bounded_most_recent_first:
  "length (ingestionHistory (foldl shell_event (st\<lparr> ingestionHistory := [] \<rparr>) evs)) \<le> 20
   \<and> length (foldl standalone_event [] evs) \<le> 20
   \<and> ingestionHistory (handleIngestSuccess t ts (ty, d) st) =
        \<lparr> entry_id = t, entry_timestamp = ts, entry_status = ''success'',
          entry_type = ty, entry_data = d \<rparr> # take 19 (ingestionHistory st)
   \<and> portal_onSuccess ty t ts d h =
        \<lparr> entry_id = t, entry_timestamp = ts, entry_status = ''success'',
          entry_type = ty, entry_data = d \<rparr> # take 9 h"
proof -
  have a: "length (ingestionHistory (foldl shell_event (st\<lparr> ingestionHistory := [] \<rparr>) evs)) \<le> 20"
    by (rule shell_run_bound) simp
  have "length (foldl standalone_event [] evs) \<le> 10"
    by (rule standalone_run_bound) simp
  then have b: "length (foldl standalone_event [] evs) \<le> 20" by simp
  show ?thesis using a b by (simp add: handleIngestSuccess_def portal_onSuccess_def)
qed

subsection \<open>HTTP client wrappers\<close>

text \<open>
  The axios client follows the order of the protocol: the message of a structured error,
  then a string error, then a top-level message, then the transport's own message; the
  error carries the status and the body.
\<close>

lemma errorMessage_priority:
  "(map_of kvs ''error'' = Some (JObj e) \<and> map_of e ''message'' = Some v \<and> truthy v \<longrightarrow>
      errorMessage (Some (JObj kvs)) = Some v)
   \<and> (map_of kvs ''error'' = Some (JStr s) \<longrightarrow> errorMessage (Some (JObj kvs)) = Some (JStr s))
   \<and> (map_of kvs ''error'' = None \<and> map_of kvs ''message'' = Some v \<and> v \<noteq> JNull \<longrightarrow>
      errorMessage (Some (JObj kvs)) = Some v)
   \<and> (map_of kvs ''error'' = None \<and> map_of kvs ''message'' = None \<longrightarrow>
      errorMessage (Some (JObj kvs)) = None)"
  by (auto simp: errorMessage_def truthy_opt_def opt_prop_def typeof_object_def
      typeof_string_def nullish_def Let_def split: json.splits option.splits)

lemma onRejected_carries:
  "ax_response err = Some resp \<Longrightarrow>
   err_status (onRejected num_to_string err) = Some (resp_status resp)
   \<and> err_data (onRejected num_to_string err) = resp_data resp
   \<and> (errorMessage (resp_data resp) = None \<longrightarrow>
        err_message (onRejected num_to_string err) = ax_message err)"
  by (simp add: onRejected_def response_data_def)

lemma request_error_carries:
  "\<not> res_ok res \<Longrightarrow>
   \<exists>e. request JSON_parse num_to_string res = Inl e \<and> err_status e = Some (res_status res)
       \<and> err_data e \<noteq> None"
  by (simp add: request_def Let_def)

text \<open>
  C6. The fetch wrapper of the legacy page does not follow that order. It passes the whole
  \<open>error\<close> property to \<open>new Error\<close>; for the error body of the protocol, an object, the
  message is \<open>[object Object]\<close>, where the axios client gives \<open>bad field\<close>.
\<close>

theorem request_structured_error:
  \<open>request
     (\<lambda>s. if s = ''{"error":{"code":"VALIDATION_ERROR","message":"bad field"}}''
          then Inr (JObj [(''error'', JObj [(''code'', JStr ''VALIDATION_ERROR''),
                                            (''message'', JStr ''bad field'')])])
          else Inl ''Unexpected token'')
     num_to_string
     \<lparr> res_status = 400, res_statusText = ''Bad Request'',
       res_text = ''{"error":{"code":"VALIDATION_ERROR","message":"bad field"}}'' \<rparr> =
   Inl \<lparr> err_message = ''[object Object]'', err_status = Some 400,
         err_data = Some (JObj [(''error'', JObj [(''code'', JStr ''VALIDATION_ERROR''),
                                                  (''message'', JStr ''bad field'')])]) \<rparr>
   \<and> err_message (onRejected num_to_string
        \<lparr> ax_message = ''Request failed with status code 400'',
          ax_response = Some \<lparr> resp_status = 400,
            resp_data = Some (JObj [(''error'', JObj [(''code'', JStr ''VALIDATION_ERROR''),
                                                     (''message'', JStr ''bad field'')])]) \<rparr> \<rparr>)
       = ''bad field''\<close>
  by (simp add: request_def res_ok_def onRejected_def errorMessage_def response_data_def
      truthy_opt_def opt_prop_def typeof_object_def typeof_string_def)

end
